theory Spec2Isabelle
  imports Complex_Main "HOL-Library.Multiset"
begin

section \<open>Numbers and vectors\<close>

text \<open>
  The program computes with C++ \<^verbatim>\<open>float\<close>.  The embedding idealises \<^verbatim>\<open>float\<close> as
  \<^typ>\<open>real\<close>: every arithmetic operation is exact, there is no rounding, no infinity and
  no NaN.  Two parts of the program are modelled closer to the machine, because there the
  idealisation would change what the program does on ordinary input: the loop of
  \<^verbatim>\<open>resolveCollisions\<close> takes the rounding of its arithmetic as a parameter, and
  \<^verbatim>\<open>Animation\<close>, which divides by a duration that may be zero, computes on all the
  values of a float, infinities and NaN included.

  \<^verbatim>\<open>glm::vec3\<close> is a triple of floats with component-wise arithmetic.
\<close>

datatype vec3 = Vec3 (vx: real) (vy: real) (vz: real)

definition vec3_splat :: "real \<Rightarrow> vec3" where
  \<comment> \<open>\<^verbatim>\<open>glm::vec3(s)\<close>\<close>
  "vec3_splat s = Vec3 s s s"

definition vadd :: "vec3 \<Rightarrow> vec3 \<Rightarrow> vec3" where
  "vadd a b = Vec3 (vx a + vx b) (vy a + vy b) (vz a + vz b)"

definition vsub :: "vec3 \<Rightarrow> vec3 \<Rightarrow> vec3" where
  "vsub a b = Vec3 (vx a - vx b) (vy a - vy b) (vz a - vz b)"

definition vscale :: "vec3 \<Rightarrow> real \<Rightarrow> vec3" where
  \<comment> \<open>\<^verbatim>\<open>v * s\<close>\<close>
  "vscale a s = Vec3 (vx a * s) (vy a * s) (vz a * s)"

definition vmin :: "vec3 \<Rightarrow> vec3 \<Rightarrow> vec3" where
  \<comment> \<open>\<^verbatim>\<open>glm::min\<close>, component-wise\<close>
  "vmin a b = Vec3 (min (vx a) (vx b)) (min (vy a) (vy b)) (min (vz a) (vz b))"

definition vmax :: "vec3 \<Rightarrow> vec3 \<Rightarrow> vec3" where
  \<comment> \<open>\<^verbatim>\<open>glm::max\<close>, component-wise\<close>
  "vmax a b = Vec3 (max (vx a) (vx b)) (max (vy a) (vy b)) (max (vz a) (vz b))"

definition dot :: "vec3 \<Rightarrow> vec3 \<Rightarrow> real" where
  "dot a b = vx a * vx b + vy a * vy b + vz a * vz b"

definition cross :: "vec3 \<Rightarrow> vec3 \<Rightarrow> vec3" where
  "cross a b = Vec3 (vy a * vz b - vy b * vz a)
                    (vz a * vx b - vz b * vx a)
                    (vx a * vy b - vx b * vy a)"

definition vlength :: "vec3 \<Rightarrow> real" where
  \<comment> \<open>\<^verbatim>\<open>glm::length(v) = sqrt(dot(v, v))\<close>\<close>
  "vlength a = sqrt (dot a a)"

definition normalize :: "vec3 \<Rightarrow> vec3" where
  \<comment> \<open>\<^verbatim>\<open>glm::normalize(v) = v * inversesqrt(dot(v, v))\<close>\<close>
  "normalize a = vscale a (1 / sqrt (dot a a))"

definition radians :: "real \<Rightarrow> real" where
  \<comment> \<open>\<^verbatim>\<open>glm::radians\<close> multiplies by this literal constant\<close>
  "radians d = d * 0.01745329251994329576923690768489"

definition clamp :: "real \<Rightarrow> real \<Rightarrow> real \<Rightarrow> real" where
  \<comment> \<open>\<^verbatim>\<open>std::clamp(v, lo, hi)\<close>\<close>
  "clamp v lo hi = (if v < lo then lo else if hi < v then hi else v)"

section \<open>Collision.h / Collision.cpp\<close>

record AABB =
  min_corner :: vec3
  max_corner :: vec3

definition getCenter :: "AABB \<Rightarrow> vec3" where
  "getCenter b = vscale (vadd (min_corner b) (max_corner b)) 0.5"

record CollisionResult =
  hit :: bool
  point :: vec3
  normal :: vec3
  penetration :: real

definition CollisionResult_init :: CollisionResult where
  \<comment> \<open>the default constructor\<close>
  "CollisionResult_init =
     \<lparr>hit = False, point = vec3_splat 0, normal = vec3_splat 0, penetration = 0\<rparr>"

definition testAABBvsAABB :: "AABB \<Rightarrow> AABB \<Rightarrow> bool" where
  "testAABBvsAABB a b =
     (if vx (max_corner a) < vx (min_corner b) \<or> vx (min_corner a) > vx (max_corner b) then False
      else if vy (max_corner a) < vy (min_corner b) \<or> vy (min_corner a) > vy (max_corner b) then False
      else if vz (max_corner a) < vz (min_corner b) \<or> vz (min_corner a) > vz (max_corner b) then False
      else True)"

definition overlapX :: "AABB \<Rightarrow> AABB \<Rightarrow> real" where
  "overlapX a b = min (vx (max_corner a) - vx (min_corner b)) (vx (max_corner b) - vx (min_corner a))"

definition overlapY :: "AABB \<Rightarrow> AABB \<Rightarrow> real" where
  "overlapY a b = min (vy (max_corner a) - vy (min_corner b)) (vy (max_corner b) - vy (min_corner a))"

definition overlapZ :: "AABB \<Rightarrow> AABB \<Rightarrow> real" where
  "overlapZ a b = min (vz (max_corner a) - vz (min_corner b)) (vz (max_corner b) - vz (min_corner a))"

definition testAABBvsAABBResponse :: "AABB \<Rightarrow> AABB \<Rightarrow> CollisionResult" where
  "testAABBvsAABBResponse a b =
     (let result = CollisionResult_init in
      if \<not> testAABBvsAABB a b then result
      else
        let result = result\<lparr>hit := True\<rparr>;
            result =
              (if overlapX a b \<le> overlapY a b \<and> overlapX a b \<le> overlapZ a b then
                 result\<lparr>penetration := overlapX a b,
                        normal := (if vx (getCenter a) < vx (getCenter b)
                                   then Vec3 (-1) 0 0 else Vec3 1 0 0)\<rparr>
               else if overlapY a b \<le> overlapX a b \<and> overlapY a b \<le> overlapZ a b then
                 result\<lparr>penetration := overlapY a b,
                        normal := (if vy (getCenter a) < vy (getCenter b)
                                   then Vec3 0 (-1) 0 else Vec3 0 1 0)\<rparr>
               else
                 result\<lparr>penetration := overlapZ a b,
                        normal := (if vz (getCenter a) < vz (getCenter b)
                                   then Vec3 0 0 (-1) else Vec3 0 0 1)\<rparr>)
        in result\<lparr>point := vscale (vadd (vmax (min_corner a) (min_corner b))
                                         (vmin (max_corner a) (max_corner b))) 0.5\<rparr>)"

record CollisionWorld =
  m_staticBoxes :: "AABB list"

definition addStaticAABB :: "CollisionWorld \<Rightarrow> AABB \<Rightarrow> CollisionWorld \<times> nat" where
  "addStaticAABB w box =
     (let w' = w\<lparr>m_staticBoxes := m_staticBoxes w @ [box]\<rparr>
      in (w', length (m_staticBoxes w') - 1))"

text \<open>The range-for loop of \<^verbatim>\<open>testAgainstStatic\<close>, with \<open>deepest\<close> as accumulator.\<close>

fun testAgainstStatic_loop :: "AABB \<Rightarrow> CollisionResult \<Rightarrow> AABB list \<Rightarrow> CollisionResult" where
  "testAgainstStatic_loop movingBox deepest [] = deepest"
| "testAgainstStatic_loop movingBox deepest (staticBox # rest) =
     (let result = testAABBvsAABBResponse movingBox staticBox in
      if hit result \<and> penetration result > penetration deepest
      then testAgainstStatic_loop movingBox result rest
      else testAgainstStatic_loop movingBox deepest rest)"

definition testAgainstStatic :: "CollisionWorld \<Rightarrow> AABB \<Rightarrow> CollisionResult" where
  "testAgainstStatic w movingBox =
     testAgainstStatic_loop movingBox (CollisionResult_init\<lparr>penetration := 0\<rparr>) (m_staticBoxes w)"

text \<open>
  The resolution loop pushes the box by \<open>penetration + 0.001\<close>, and whether the box
  ends clear of the wall depends on how \<^verbatim>\<open>float\<close> rounds that sum and the translated
  corners.  The loop is therefore modelled with a rounding function \<open>rnd\<close> applied to the
  result of each of its arithmetic operations and to the literal \<^verbatim>\<open>0.001f\<close>: the
  identity gives exact arithmetic, \<open>binary32\<close> (below) the rounding of \<^verbatim>\<open>float\<close>.
  The collision test inside the loop is the one above.
\<close>

definition vadd_rounded :: "(real \<Rightarrow> real) \<Rightarrow> vec3 \<Rightarrow> vec3 \<Rightarrow> vec3" where
  "vadd_rounded rnd a b = Vec3 (rnd (vx a + vx b)) (rnd (vy a + vy b)) (rnd (vz a + vz b))"

definition vscale_rounded :: "(real \<Rightarrow> real) \<Rightarrow> vec3 \<Rightarrow> real \<Rightarrow> vec3" where
  "vscale_rounded rnd a s = Vec3 (rnd (vx a * s)) (rnd (vy a * s)) (rnd (vz a * s))"

definition translateBox :: "(real \<Rightarrow> real) \<Rightarrow> AABB \<Rightarrow> vec3 \<Rightarrow> AABB" where
  \<comment> \<open>\<^verbatim>\<open>testBox.min += push; testBox.max += push;\<close>\<close>
  "translateBox rnd b push =
     b\<lparr>min_corner := vadd_rounded rnd (min_corner b) push,
       max_corner := vadd_rounded rnd (max_corner b) push\<rparr>"

text \<open>
  The \<^verbatim>\<open>for (int iteration = 0; iteration < 4; iteration++)\<close> loop of
  \<^verbatim>\<open>resolveCollisions\<close>.  Besides \<open>resolvedPos\<close> the model returns the final
  \<open>testBox\<close> and the value of \<open>iteration\<close> when the loop is left, so that the number
  of pushes can be stated.
\<close>

function resolveCollisions_loop ::
  "(real \<Rightarrow> real) \<Rightarrow> CollisionWorld \<Rightarrow> nat \<Rightarrow> AABB \<Rightarrow> vec3 \<Rightarrow> vec3 \<times> AABB \<times> nat" where
  "resolveCollisions_loop rnd w iteration testBox resolvedPos =
     (if iteration < 4 then
        (let result = testAgainstStatic w testBox in
         if \<not> hit result then (resolvedPos, testBox, iteration)
         else
           let push = vscale_rounded rnd (normal result) (rnd (penetration result + rnd 0.001))
           in resolveCollisions_loop rnd w (iteration + 1) (translateBox rnd testBox push)
                (vadd_rounded rnd resolvedPos push))
      else (resolvedPos, testBox, iteration))"
  by pat_completeness auto
termination
  by (relation "measure (\<lambda>(rnd, w, iteration, testBox, resolvedPos). 4 - iteration)") auto

declare resolveCollisions_loop.simps [simp del]


text \<open>
  Rounding to \<^verbatim>\<open>float\<close> (IEEE 754 binary32, round to nearest, ties to even): a non-zero
  \<open>x\<close> with \<open>2 ^ e \<le> \<bar>x\<bar> < 2 ^ (e + 1)\<close> is rounded to the nearest multiple of
  \<open>2 ^ (e - 23)\<close>, the spacing of floats of that magnitude; below \<open>2 ^ -126\<close> the
  spacing stays \<open>2 ^ -149\<close>.  Overflow to infinity is not modelled.
  \<open>exponent_loop\<close> finds \<open>e\<close> by halving or doubling \<open>\<bar>x\<bar>\<close> into \<open>[1, 2)\<close>.
\<close>

fun exponent_loop :: "nat \<Rightarrow> real \<Rightarrow> int \<Rightarrow> int" where
  "exponent_loop 0 x e = e"
| "exponent_loop (Suc n) x e =
     (if 2 \<le> x then exponent_loop n (x / 2) (e + 1)
      else if x < 1 then exponent_loop n (x * 2) (e - 1)
      else e)"

definition pow2 :: "int \<Rightarrow> real" where
  "pow2 k = (if 0 \<le> k then 2 ^ nat k else 1 / 2 ^ nat (- k))"

definition round_half_even :: "real \<Rightarrow> int" where
  "round_half_even x =
     (let f = \<lfloor>x\<rfloor>; d = x - of_int f
      in if d < 1/2 then f else if 1/2 < d then f + 1 else if even f then f else f + 1)"

definition binary32 :: "real \<Rightarrow> real" where
  "binary32 x =
     (if x = 0 then 0
      else let e = max (- 126) (exponent_loop 300 \<bar>x\<bar> 0);
               ulp = pow2 (e - 23)
           in of_int (round_half_even (x / ulp)) * ulp)"

section \<open>glm matrices\<close>

text \<open>
  \<^verbatim>\<open>glm::mat4\<close> is column-major: \<^verbatim>\<open>m[i]\<close> is column \<open>i\<close>, a \<^verbatim>\<open>glm::vec4\<close>.
  The functions below are the library's \<^verbatim>\<open>translate\<close>, \<^verbatim>\<open>rotate\<close> and
  \<^verbatim>\<open>scale\<close> of \<^verbatim>\<open>glm/gtc/matrix_transform\<close>, which the program calls; the
  library itself is not part of the repository.
\<close>

datatype vec4 = Vec4 (wx: real) (wy: real) (wz: real) (ww: real)

datatype mat4 = Mat4 (col0: vec4) (col1: vec4) (col2: vec4) (col3: vec4)

definition v4add :: "vec4 \<Rightarrow> vec4 \<Rightarrow> vec4" where
  "v4add a b = Vec4 (wx a + wx b) (wy a + wy b) (wz a + wz b) (ww a + ww b)"

definition v4scale :: "vec4 \<Rightarrow> real \<Rightarrow> vec4" where
  "v4scale a s = Vec4 (wx a * s) (wy a * s) (wz a * s) (ww a * s)"

definition vec3_of_vec4 :: "vec4 \<Rightarrow> vec3" where
  \<comment> \<open>\<^verbatim>\<open>glm::vec3(v4)\<close> drops the last component\<close>
  "vec3_of_vec4 v = Vec3 (wx v) (wy v) (wz v)"

definition mat4_diag :: "real \<Rightarrow> mat4" where
  \<comment> \<open>\<^verbatim>\<open>glm::mat4(s)\<close>\<close>
  "mat4_diag s = Mat4 (Vec4 s 0 0 0) (Vec4 0 s 0 0) (Vec4 0 0 s 0) (Vec4 0 0 0 s)"

definition glm_translate :: "mat4 \<Rightarrow> vec3 \<Rightarrow> mat4" where
  "glm_translate m v =
     Mat4 (col0 m) (col1 m) (col2 m)
          (v4add (v4add (v4add (v4scale (col0 m) (vx v)) (v4scale (col1 m) (vy v)))
                        (v4scale (col2 m) (vz v)))
                 (col3 m))"

definition glm_rotate :: "mat4 \<Rightarrow> real \<Rightarrow> vec3 \<Rightarrow> mat4" where
  "glm_rotate m angle v =
     (let c = cos angle; s = sin angle;
          axis = normalize v;
          temp = vscale axis (1 - c);
          r00 = c + vx temp * vx axis;
          r01 = vx temp * vy axis + s * vz axis;
          r02 = vx temp * vz axis - s * vy axis;
          r10 = vy temp * vx axis - s * vz axis;
          r11 = c + vy temp * vy axis;
          r12 = vy temp * vz axis + s * vx axis;
          r20 = vz temp * vx axis + s * vy axis;
          r21 = vz temp * vy axis - s * vx axis;
          r22 = c + vz temp * vz axis
      in Mat4 (v4add (v4add (v4scale (col0 m) r00) (v4scale (col1 m) r01)) (v4scale (col2 m) r02))
              (v4add (v4add (v4scale (col0 m) r10) (v4scale (col1 m) r11)) (v4scale (col2 m) r12))
              (v4add (v4add (v4scale (col0 m) r20) (v4scale (col1 m) r21)) (v4scale (col2 m) r22))
              (col3 m))"

definition glm_scale :: "mat4 \<Rightarrow> vec3 \<Rightarrow> mat4" where
  "glm_scale m v =
     Mat4 (v4scale (col0 m) (vx v)) (v4scale (col1 m) (vy v)) (v4scale (col2 m) (vz v)) (col3 m)"

text \<open>
  The world matrix as the specification words it: the product
  \<open>Translate(position) \<cdot> RotateZ \<cdot> RotateY \<cdot> RotateX \<cdot> Scale(scale)\<close> of the textbook
  matrices, angles converted from degrees.  It is written independently of the code and
  compared with what \<^verbatim>\<open>updateModelMatrix\<close> computes.
\<close>

definition mat_vec :: "mat4 \<Rightarrow> vec4 \<Rightarrow> vec4" where
  \<comment> \<open>matrix times column vector\<close>
  "mat_vec m v =
     v4add (v4add (v4add (v4scale (col0 m) (wx v)) (v4scale (col1 m) (wy v)))
                  (v4scale (col2 m) (wz v)))
           (v4scale (col3 m) (ww v))"

definition mat_mul :: "mat4 \<Rightarrow> mat4 \<Rightarrow> mat4" where
  "mat_mul a b =
     Mat4 (mat_vec a (col0 b)) (mat_vec a (col1 b)) (mat_vec a (col2 b)) (mat_vec a (col3 b))"

definition translation_matrix :: "vec3 \<Rightarrow> mat4" where
  "translation_matrix p =
     Mat4 (Vec4 1 0 0 0) (Vec4 0 1 0 0) (Vec4 0 0 1 0) (Vec4 (vx p) (vy p) (vz p) 1)"

definition rotationZ_matrix :: "real \<Rightarrow> mat4" where
  "rotationZ_matrix a =
     Mat4 (Vec4 (cos a) (sin a) 0 0) (Vec4 (- sin a) (cos a) 0 0) (Vec4 0 0 1 0) (Vec4 0 0 0 1)"

definition rotationY_matrix :: "real \<Rightarrow> mat4" where
  "rotationY_matrix a =
     Mat4 (Vec4 (cos a) 0 (- sin a) 0) (Vec4 0 1 0 0) (Vec4 (sin a) 0 (cos a) 0) (Vec4 0 0 0 1)"

definition rotationX_matrix :: "real \<Rightarrow> mat4" where
  "rotationX_matrix a =
     Mat4 (Vec4 1 0 0 0) (Vec4 0 (cos a) (sin a) 0) (Vec4 0 (- sin a) (cos a) 0) (Vec4 0 0 0 1)"

definition scale_matrix :: "vec3 \<Rightarrow> mat4" where
  "scale_matrix s =
     Mat4 (Vec4 (vx s) 0 0 0) (Vec4 0 (vy s) 0 0) (Vec4 0 0 (vz s) 0) (Vec4 0 0 0 1)"

definition spec_worldMatrix :: "vec3 \<Rightarrow> vec3 \<Rightarrow> vec3 \<Rightarrow> mat4" where
  "spec_worldMatrix position rotation scale =
     mat_mul (translation_matrix position)
       (mat_mul (rotationZ_matrix (radians (vz rotation)))
          (mat_mul (rotationY_matrix (radians (vy rotation)))
             (mat_mul (rotationX_matrix (radians (vx rotation))) (scale_matrix scale))))"

section \<open>Material.h / Model.h / Model.cpp\<close>

text \<open>
  Of \<^verbatim>\<open>Material\<close> only the opacity matters here.  Of \<^verbatim>\<open>Model\<close> the name and the
  meshes are left out; \<open>recomputeCount\<close> is a ghost field counting the calls of
  \<^verbatim>\<open>updateModelMatrix\<close>.  \<^verbatim>\<open>getModelMatrix\<close> is \<^verbatim>\<open>const\<close> in the source but
  writes the two \<^verbatim>\<open>mutable\<close> cache fields, so the model returns the matrix together
  with the updated object.
\<close>

record Material =
  opacity :: real

definition isTransparent :: "Material \<Rightarrow> bool" where
  "isTransparent mat = (opacity mat < 1.0)"

record Model =
  m_material :: Material
  m_position :: vec3
  m_rotation :: vec3
  m_scale :: vec3
  m_visible :: bool
  m_modelMatrix :: mat4
  m_modelMatrixDirty :: bool
  recomputeCount :: nat

definition Model_init :: "Model" where
  \<comment> \<open>\<^verbatim>\<open>Model::Model()\<close>; the default material is opaque\<close>
  "Model_init =
     \<lparr>m_material = \<lparr>opacity = 1.0\<rparr>,
      m_position = vec3_splat 0, m_rotation = vec3_splat 0, m_scale = vec3_splat 1,
      m_visible = True, m_modelMatrix = mat4_diag 1, m_modelMatrixDirty = True,
      recomputeCount = 0\<rparr>"

definition setPosition :: "Model \<Rightarrow> vec3 \<Rightarrow> Model" where
  "setPosition m position = m\<lparr>m_position := position, m_modelMatrixDirty := True\<rparr>"

definition setRotation :: "Model \<Rightarrow> vec3 \<Rightarrow> Model" where
  "setRotation m rotation = m\<lparr>m_rotation := rotation, m_modelMatrixDirty := True\<rparr>"

definition setScale :: "Model \<Rightarrow> vec3 \<Rightarrow> Model" where
  "setScale m scale = m\<lparr>m_scale := scale, m_modelMatrixDirty := True\<rparr>"

definition setScale_uniform :: "Model \<Rightarrow> real \<Rightarrow> Model" where
  \<comment> \<open>the overload \<^verbatim>\<open>setScale(float uniformScale)\<close>\<close>
  "setScale_uniform m uniformScale =
     m\<lparr>m_scale := vec3_splat uniformScale, m_modelMatrixDirty := True\<rparr>"

definition updateModelMatrix :: "Model \<Rightarrow> Model" where
  "updateModelMatrix m =
     (let mm = mat4_diag 1.0;
          mm = glm_translate mm (m_position m);
          mm = glm_rotate mm (radians (vz (m_rotation m))) (Vec3 0 0 1);
          mm = glm_rotate mm (radians (vy (m_rotation m))) (Vec3 0 1 0);
          mm = glm_rotate mm (radians (vx (m_rotation m))) (Vec3 1 0 0);
          mm = glm_scale mm (m_scale m)
      in m\<lparr>m_modelMatrix := mm, m_modelMatrixDirty := False,
            recomputeCount := Suc (recomputeCount m)\<rparr>)"

definition getModelMatrix :: "Model \<Rightarrow> mat4 \<times> Model" where
  "getModelMatrix m =
     (let m = (if m_modelMatrixDirty m then updateModelMatrix m else m)
      in (m_modelMatrix m, m))"

text \<open>
  The operations a client of \<^verbatim>\<open>Model\<close> can apply to its transform: the four setters
  and the matrix getter.  \<open>Model_run\<close> applies a sequence of them to an object.
\<close>

datatype Model_op =
    SetPosition vec3
  | SetRotation vec3
  | SetScale vec3
  | SetScaleUniform real
  | GetModelMatrix

fun Model_step :: "Model \<Rightarrow> Model_op \<Rightarrow> Model" where
  "Model_step m (SetPosition v) = setPosition m v"
| "Model_step m (SetRotation v) = setRotation m v"
| "Model_step m (SetScale v) = setScale m v"
| "Model_step m (SetScaleUniform s) = setScale_uniform m s"
| "Model_step m GetModelMatrix = snd (getModelMatrix m)"

definition Model_run :: "Model \<Rightarrow> Model_op list \<Rightarrow> Model" where
  "Model_run m ops = foldl Model_step m ops"

text \<open>
  The invariant of the cache: the stored matrix is either marked dirty or equal to the
  world matrix of the current position, rotation and scale.
\<close>

definition cache_ok :: "Model \<Rightarrow> bool" where
  "cache_ok m =
     (m_modelMatrixDirty m \<or>
      m_modelMatrix m = spec_worldMatrix (m_position m) (m_rotation m) (m_scale m))"

section \<open>Camera.h / Camera.cpp\<close>

datatype CameraMode = FREE_ROAM | ORBIT | DRIVER_SEAT

record Camera =
  m_cam_position :: vec3
  m_front :: vec3
  m_up :: vec3
  m_right :: vec3
  m_worldUp :: vec3
  m_yaw :: real
  m_pitch :: real
  m_movementSpeed :: real
  m_mouseSensitivity :: real
  m_fov :: real
  m_nearPlane :: real
  m_farPlane :: real
  m_mode :: CameraMode
  m_orbitTarget :: vec3
  m_orbitRadius :: real
  m_orbitYaw :: real
  m_orbitPitch :: real
  m_driverSeatPosition :: vec3
  m_driverSeatYawLimit :: real
  m_driverSeatPitchLimit :: real

definition updateCameraVectors :: "Camera \<Rightarrow> Camera" where
  "updateCameraVectors c =
     (let front = Vec3 (cos (radians (m_yaw c)) * cos (radians (m_pitch c)))
                       (sin (radians (m_pitch c)))
                       (sin (radians (m_yaw c)) * cos (radians (m_pitch c)));
          c = c\<lparr>m_front := normalize front\<rparr>;
          c = c\<lparr>m_right := normalize (cross (m_front c) (m_worldUp c))\<rparr>
      in c\<lparr>m_up := normalize (cross (m_right c) (m_front c))\<rparr>)"

definition updateOrbitPosition :: "Camera \<Rightarrow> Camera" where
  "updateOrbitPosition c =
     (let pitchRad = radians (m_orbitPitch c);
          yawRad = radians (m_orbitYaw c);
          offset = Vec3 (m_orbitRadius c * cos pitchRad * cos yawRad)
                        (m_orbitRadius c * sin pitchRad)
                        (m_orbitRadius c * cos pitchRad * sin yawRad);
          c = c\<lparr>m_cam_position := vadd (m_orbitTarget c) offset\<rparr>;
          c = c\<lparr>m_front := normalize (vsub (m_orbitTarget c) (m_cam_position c))\<rparr>;
          c = c\<lparr>m_right := normalize (cross (m_front c) (m_worldUp c))\<rparr>
      in c\<lparr>m_up := normalize (cross (m_right c) (m_front c))\<rparr>)"

definition Camera_init :: Camera where
  \<comment> \<open>\<^verbatim>\<open>Camera::Camera()\<close>\<close>
  "Camera_init =
     updateCameraVectors
       \<lparr>m_cam_position = Vec3 0 2 5, m_front = Vec3 0 0 (-1), m_up = Vec3 0 1 0,
        m_right = Vec3 1 0 0, m_worldUp = Vec3 0 1 0, m_yaw = -90, m_pitch = 0,
        m_movementSpeed = 5, m_mouseSensitivity = 0.1, m_fov = 45, m_nearPlane = 0.1,
        m_farPlane = 100, m_mode = FREE_ROAM, m_orbitTarget = vec3_splat 0,
        m_orbitRadius = 5, m_orbitYaw = 0, m_orbitPitch = 20,
        m_driverSeatPosition = Vec3 0 1 0.5, m_driverSeatYawLimit = 120,
        m_driverSeatPitchLimit = 45\<rparr>"

definition setMode :: "Camera \<Rightarrow> CameraMode \<Rightarrow> Camera" where
  "setMode c mode =
     (let c = c\<lparr>m_mode := mode\<rparr> in
      case mode of
        FREE_ROAM \<Rightarrow> c
      | ORBIT \<Rightarrow> updateOrbitPosition c
      | DRIVER_SEAT \<Rightarrow>
          updateCameraVectors
            (c\<lparr>m_cam_position := m_driverSeatPosition c, m_yaw := -90, m_pitch := 0\<rparr>))"

definition processMouseMovement :: "Camera \<Rightarrow> real \<Rightarrow> real \<Rightarrow> bool \<Rightarrow> Camera" where
  "processMouseMovement c xoffset yoffset constrainPitch =
     (let xoffset = xoffset * m_mouseSensitivity c;
          yoffset = yoffset * m_mouseSensitivity c
      in case m_mode c of
        FREE_ROAM \<Rightarrow>
          (let c = c\<lparr>m_yaw := m_yaw c + xoffset\<rparr>;
               c = c\<lparr>m_pitch := m_pitch c + yoffset\<rparr>;
               c = (if constrainPitch then c\<lparr>m_pitch := clamp (m_pitch c) (-89.0) 89.0\<rparr> else c)
           in updateCameraVectors c)
      | ORBIT \<Rightarrow>
          (let c = c\<lparr>m_orbitYaw := m_orbitYaw c - xoffset\<rparr>;
               c = c\<lparr>m_orbitPitch := m_orbitPitch c + yoffset\<rparr>;
               c = c\<lparr>m_orbitPitch := clamp (m_orbitPitch c) (-80.0) 80.0\<rparr>
           in updateOrbitPosition c)
      | DRIVER_SEAT \<Rightarrow>
          (let c = c\<lparr>m_yaw := m_yaw c + xoffset\<rparr>;
               c = c\<lparr>m_pitch := m_pitch c + yoffset\<rparr>;
               c = c\<lparr>m_yaw := clamp (m_yaw c) (-90.0 - m_driverSeatYawLimit c)
                                  (-90.0 + m_driverSeatYawLimit c)\<rparr>;
               c = c\<lparr>m_pitch := clamp (m_pitch c) (- m_driverSeatPitchLimit c)
                                    (m_driverSeatPitchLimit c)\<rparr>
           in updateCameraVectors c))"

definition setOrbitTarget :: "Camera \<Rightarrow> vec3 \<Rightarrow> Camera" where
  "setOrbitTarget c target =
     (let c = c\<lparr>m_orbitTarget := target\<rparr>
      in if m_mode c = ORBIT then updateOrbitPosition c else c)"

definition setOrbitRadius :: "Camera \<Rightarrow> real \<Rightarrow> Camera" where
  "setOrbitRadius c radius =
     (let c = c\<lparr>m_orbitRadius := clamp radius 1.0 50.0\<rparr>
      in if m_mode c = ORBIT then updateOrbitPosition c else c)"

definition processKeyboard :: "Camera \<Rightarrow> real \<Rightarrow> real \<Rightarrow> real \<Rightarrow> real \<Rightarrow> Camera" where
  "processKeyboard c forward right up deltaTime =
     (let velocity = m_movementSpeed c * deltaTime
      in case m_mode c of
        FREE_ROAM \<Rightarrow>
          (let c = c\<lparr>m_cam_position :=
                        vadd (m_cam_position c) (vscale (vscale (m_front c) forward) velocity)\<rparr>;
               c = c\<lparr>m_cam_position :=
                        vadd (m_cam_position c) (vscale (vscale (m_right c) right) velocity)\<rparr>
           in c\<lparr>m_cam_position :=
                   vadd (m_cam_position c) (vscale (vscale (m_worldUp c) up) velocity)\<rparr>)
      | ORBIT \<Rightarrow>
          (let c = c\<lparr>m_orbitYaw := m_orbitYaw c + right * velocity * 20.0\<rparr>;
               c = c\<lparr>m_orbitPitch := m_orbitPitch c + up * velocity * 20.0\<rparr>;
               c = c\<lparr>m_orbitPitch := clamp (m_orbitPitch c) (-80.0) 80.0\<rparr>;
               c = c\<lparr>m_orbitRadius := m_orbitRadius c - forward * velocity * 2.0\<rparr>;
               c = c\<lparr>m_orbitRadius := clamp (m_orbitRadius c) 2.0 20.0\<rparr>
           in updateOrbitPosition c)
      | DRIVER_SEAT \<Rightarrow> c)"

definition processMouseScroll :: "Camera \<Rightarrow> real \<Rightarrow> Camera" where
  "processMouseScroll c yoffset =
     (case m_mode c of
        FREE_ROAM \<Rightarrow>
          (let c = c\<lparr>m_fov := m_fov c - yoffset\<rparr>
           in c\<lparr>m_fov := clamp (m_fov c) 1.0 90.0\<rparr>)
      | ORBIT \<Rightarrow>
          (let c = c\<lparr>m_orbitRadius := m_orbitRadius c - yoffset * 0.5\<rparr>;
               c = c\<lparr>m_orbitRadius := clamp (m_orbitRadius c) 2.0 20.0\<rparr>
           in updateOrbitPosition c)
      | DRIVER_SEAT \<Rightarrow>
          (let c = c\<lparr>m_fov := m_fov c - yoffset\<rparr>
           in c\<lparr>m_fov := clamp (m_fov c) 30.0 60.0\<rparr>))"

text \<open>A sequence of mouse events, each handled with the pitch constraint enabled.\<close>

definition processMouseMovements :: "Camera \<Rightarrow> (real \<times> real) list \<Rightarrow> Camera" where
  "processMouseMovements c ds =
     foldl (\<lambda>c (xoffset, yoffset). processMouseMovement c xoffset yoffset True) c ds"

section \<open>Renderer.h / Renderer.cpp\<close>

text \<open>
  A \<^verbatim>\<open>RenderCommand\<close> points to a model: \<open>model\<close> is an address into a store of
  models, \<open>None\<close> the null pointer.  \<open>distanceToCamera\<close> is written for transparent
  commands only; \<open>None\<close> is the field that \<^verbatim>\<open>submit\<close> leaves uninitialised.

  Of the renderer's state the two command queues, the camera position and the draw-call
  counter are modelled (lights, matrices and viewport are not).  \<open>gl_trace\<close> is a ghost
  field: the calls issued since \<^verbatim>\<open>beginFrame\<close>, among them one \<open>ExecuteCommand\<close> for
  every call of \<^verbatim>\<open>executeCommand\<close> and one \<open>ModelDraw\<close> for every \<^verbatim>\<open>Model::draw\<close>
  it makes.
\<close>

record RenderCommand =
  model :: "nat option"
  transform :: mat4
  transparent :: bool
  distanceToCamera :: "real option"

datatype gl_call =
    GlClear
  | ShaderUse
  | SetCameraUniforms
  | ApplyLighting
  | GlDepthMask bool
  | GlEnableBlend
  | GlDisableBlend
  | GlBlendFunc_SrcAlpha_OneMinusSrcAlpha
  | ExecuteCommand RenderCommand
  | ModelDraw nat mat4

record Renderer =
  m_opaqueCommands :: "RenderCommand list"
  m_transparentCommands :: "RenderCommand list"
  m_cameraPosition :: vec3
  m_drawCallCount :: int
  gl_trace :: "gl_call list"

definition gl :: "Renderer \<Rightarrow> gl_call list \<Rightarrow> Renderer" where
  "gl r calls = r\<lparr>gl_trace := gl_trace r @ calls\<rparr>"

definition beginFrame :: "Renderer \<Rightarrow> Renderer" where
  "beginFrame r =
     r\<lparr>m_drawCallCount := 0, m_opaqueCommands := [], m_transparentCommands := [],
       gl_trace := [GlClear]\<rparr>"

definition submit :: "(nat \<Rightarrow> Model) \<Rightarrow> Renderer \<Rightarrow> nat \<Rightarrow> mat4 \<Rightarrow> Renderer" where
  "submit store r p tr =
     (let cmd = \<lparr>model = Some p, transform = tr,
                 transparent = isTransparent (m_material (store p)),
                 distanceToCamera = None\<rparr>
      in if transparent cmd then
           (let modelPos = vec3_of_vec4 (col3 tr);
                cmd = cmd\<lparr>distanceToCamera := Some (vlength (vsub (m_cameraPosition r) modelPos))\<rparr>
            in r\<lparr>m_transparentCommands := m_transparentCommands r @ [cmd]\<rparr>)
         else r\<lparr>m_opaqueCommands := m_opaqueCommands r @ [cmd]\<rparr>)"

text \<open>
  \<^verbatim>\<open>std::sort\<close> with a comparator.  The standard fixes the result up to the order of
  equivalent elements; the model is an insertion sort, and the theorems about it state
  only what every conforming \<^verbatim>\<open>std::sort\<close> guarantees (a sorted permutation).
\<close>

fun sort_insert :: "('a \<Rightarrow> 'a \<Rightarrow> bool) \<Rightarrow> 'a \<Rightarrow> 'a list \<Rightarrow> 'a list" where
  "sort_insert cmp x [] = [x]"
| "sort_insert cmp x (y # ys) =
     (if cmp x y then x # y # ys else y # sort_insert cmp x ys)"

definition std_sort :: "('a \<Rightarrow> 'a \<Rightarrow> bool) \<Rightarrow> 'a list \<Rightarrow> 'a list" where
  "std_sort cmp xs = foldr (sort_insert cmp) xs []"

definition sortTransparentCommands :: "Renderer \<Rightarrow> Renderer" where
  "sortTransparentCommands r =
     r\<lparr>m_transparentCommands :=
         std_sort (\<lambda>a b. the (distanceToCamera a) > the (distanceToCamera b))
           (m_transparentCommands r)\<rparr>"

definition executeCommand :: "(nat \<Rightarrow> Model) \<Rightarrow> Renderer \<Rightarrow> RenderCommand \<Rightarrow> Renderer" where
  "executeCommand store r cmd =
     (let r = gl r [ExecuteCommand cmd] in
      case model cmd of
        None \<Rightarrow> r
      | Some p \<Rightarrow>
          if m_visible (store p)
          then (gl r [ModelDraw p (transform cmd)])\<lparr>m_drawCallCount := m_drawCallCount r + 1\<rparr>
          else r)"

definition endFrame :: "(nat \<Rightarrow> Model) \<Rightarrow> Renderer \<Rightarrow> Renderer" where
  "endFrame store r =
     (let r = gl r [ShaderUse, SetCameraUniforms, ApplyLighting];
          r = gl r [GlDepthMask True, GlDisableBlend];
          r = foldl (executeCommand store) r (m_opaqueCommands r);
          r = sortTransparentCommands r;
          r = gl r [GlDepthMask False, GlEnableBlend, GlBlendFunc_SrcAlpha_OneMinusSrcAlpha];
          r = foldl (executeCommand store) r (m_transparentCommands r)
      in gl r [GlDepthMask True, GlDisableBlend])"

text \<open>A frame: the submissions made between \<^verbatim>\<open>beginFrame\<close> and \<^verbatim>\<open>endFrame\<close>.\<close>

definition submitAll :: "(nat \<Rightarrow> Model) \<Rightarrow> Renderer \<Rightarrow> (nat \<times> mat4) list \<Rightarrow> Renderer" where
  "submitAll store r subs = foldl (\<lambda>r (p, tr). submit store r p tr) r subs"

text \<open>The commands handed to \<^verbatim>\<open>executeCommand\<close>, in the order of the calls.\<close>

fun executed :: "gl_call list \<Rightarrow> RenderCommand list" where
  "executed [] = []"
| "executed (ExecuteCommand cmd # calls) = cmd # executed calls"
| "executed (_ # calls) = executed calls"

section \<open>Animation.h / Animation.cpp\<close>

definition linear :: "real \<Rightarrow> real" where
  "linear t = t"

definition easeInQuad :: "real \<Rightarrow> real" where
  "easeInQuad t = t * t"

definition easeOutQuad :: "real \<Rightarrow> real" where
  "easeOutQuad t = t * (2.0 - t)"

definition easeInOutQuad :: "real \<Rightarrow> real" where
  "easeInOutQuad t = (if t < 0.5 then 2.0 * t * t else -1.0 + (4.0 - 2.0 * t) * t)"

definition easeInCubic :: "real \<Rightarrow> real" where
  "easeInCubic t = t * t * t"

definition easeOutCubic :: "real \<Rightarrow> real" where
  "easeOutCubic t = (let f = t - 1.0 in f * f * f + 1.0)"

definition easeInOutCubic :: "real \<Rightarrow> real" where
  "easeInOutCubic t =
     (if t < 0.5 then 4.0 * t * t * t
      else let f = 2.0 * t - 2.0 in 0.5 * f * f * f + 1.0)"

definition easeInElastic :: "real \<Rightarrow> real" where
  "easeInElastic t =
     (if t = 0.0 \<or> t = 1.0 then t
      else
        let p = 0.3; s = p / 4.0;
            postFix = 2.0 powr (10.0 * (t - 1.0))
        in - (postFix * sin ((t - 1.0 - s) * (2.0 * 3.14159265359) / p)))"

definition easeOutElastic :: "real \<Rightarrow> real" where
  "easeOutElastic t =
     (if t = 0.0 \<or> t = 1.0 then t
      else
        let p = 0.3; s = p / 4.0
        in 2.0 powr (-10.0 * t) * sin ((t - s) * (2.0 * 3.14159265359) / p) + 1.0)"

definition easeOutBounce :: "real \<Rightarrow> real" where
  "easeOutBounce t =
     (if t < 1.0 / 2.75 then 7.5625 * t * t
      else if t < 2.0 / 2.75 then
        (let postFix = t - 1.5 / 2.75 in 7.5625 * postFix * postFix + 0.75)
      else if t < 2.5 / 2.75 then
        (let postFix = t - 2.25 / 2.75 in 7.5625 * postFix * postFix + 0.9375)
      else
        (let postFix = t - 2.625 / 2.75 in 7.5625 * postFix * postFix + 0.984375))"

text \<open>
  \<^verbatim>\<open>Animation::update\<close> divides by the duration, which the constructor takes from its
  caller and which may be zero.  The animation is therefore modelled on all the values of
  a \<^verbatim>\<open>float\<close>, not on the reals alone: \<open>Finite x\<close> is the float of value \<open>x\<close>
  (\<open>Finite 0\<close> is \<open>+0.0\<close>), \<open>NegZero\<close> is \<open>-0.0\<close>, and \<open>PosInf\<close>, \<open>NegInf\<close> and \<open>NaN\<close> are
  the two infinities and not-a-number.  The operations follow IEEE 754 on these values
  (signs of zeros and infinities, \<open>x / 0\<close>, \<open>0 / 0\<close>, \<open>inf - inf\<close>, \<open>0 * inf\<close>, comparisons
  with NaN false); finite results are exact, without rounding, overflow or underflow.
\<close>

datatype fval = Finite real | NegZero | PosInf | NegInf | NaN

fun fsign :: "fval \<Rightarrow> bool" where
  \<comment> \<open>the sign bit\<close>
  "fsign (Finite x) = (x < 0)"
| "fsign NegZero = True"
| "fsign PosInf = False"
| "fsign NegInf = True"
| "fsign NaN = False"

fun fzero :: "fval \<Rightarrow> bool" where
  "fzero (Finite x) = (x = 0)"
| "fzero NegZero = True"
| "fzero _ = False"

fun finf :: "fval \<Rightarrow> bool" where
  "finf PosInf = True"
| "finf NegInf = True"
| "finf _ = False"

fun fvalue :: "fval \<Rightarrow> real" where
  \<comment> \<open>the real value of a finite float\<close>
  "fvalue (Finite x) = x"
| "fvalue _ = 0"

definition signed_zero :: "bool \<Rightarrow> fval" where
  "signed_zero negative = (if negative then NegZero else Finite 0)"

definition signed_inf :: "bool \<Rightarrow> fval" where
  "signed_inf negative = (if negative then NegInf else PosInf)"

fun fadd :: "fval \<Rightarrow> fval \<Rightarrow> fval" where
  "fadd NaN _ = NaN"
| "fadd _ NaN = NaN"
| "fadd PosInf NegInf = NaN"
| "fadd NegInf PosInf = NaN"
| "fadd PosInf _ = PosInf"
| "fadd _ PosInf = PosInf"
| "fadd NegInf _ = NegInf"
| "fadd _ NegInf = NegInf"
| "fadd NegZero NegZero = NegZero"
| "fadd x y = Finite (fvalue x + fvalue y)"

fun fneg :: "fval \<Rightarrow> fval" where
  "fneg (Finite x) = (if x = 0 then NegZero else Finite (- x))"
| "fneg NegZero = Finite 0"
| "fneg PosInf = NegInf"
| "fneg NegInf = PosInf"
| "fneg NaN = NaN"

definition fsub :: "fval \<Rightarrow> fval \<Rightarrow> fval" where
  "fsub x y = fadd x (fneg y)"

definition fmul :: "fval \<Rightarrow> fval \<Rightarrow> fval" where
  "fmul x y =
     (if x = NaN \<or> y = NaN then NaN
      else if finf x \<or> finf y then
        (if fzero x \<or> fzero y then NaN else signed_inf (fsign x \<noteq> fsign y))
      else if fvalue x * fvalue y = 0 then signed_zero (fsign x \<noteq> fsign y)
      else Finite (fvalue x * fvalue y))"

definition fdiv :: "fval \<Rightarrow> fval \<Rightarrow> fval" where
  "fdiv x y =
     (if x = NaN \<or> y = NaN then NaN
      else if finf x then (if finf y then NaN else signed_inf (fsign x \<noteq> fsign y))
      else if finf y then signed_zero (fsign x \<noteq> fsign y)
      else if fzero y then (if fzero x then NaN else signed_inf (fsign x \<noteq> fsign y))
      else if fzero x then signed_zero (fsign x \<noteq> fsign y)
      else Finite (fvalue x / fvalue y))"

definition fge :: "fval \<Rightarrow> fval \<Rightarrow> bool" where
  \<comment> \<open>\<^verbatim>\<open>x >= y\<close>\<close>
  "fge x y =
     (if x = NaN \<or> y = NaN then False
      else if x = PosInf \<or> y = NegInf then True
      else if x = NegInf \<or> y = PosInf then False
      else fvalue x \<ge> fvalue y)"

definition linear_float :: "fval \<Rightarrow> fval" where
  \<comment> \<open>\<^verbatim>\<open>Easing::linear\<close> on every float value; on \<open>Finite x\<close> it is \<open>linear x\<close>\<close>
  "linear_float t = t"

text \<open>
  The completion callback is a \<^verbatim>\<open>std::function<void()>\<close>: it acts on the rest of the
  program, modelled as a transformer of a state \<open>'w\<close> that \<^verbatim>\<open>update\<close> threads through;
  \<open>None\<close> is the empty function object.
\<close>

record 'w Animation =
  m_startValue :: fval
  m_endValue :: fval
  m_currentValue :: fval
  m_duration :: fval
  m_elapsed :: fval
  m_complete :: bool
  m_paused :: bool
  m_easing :: "fval \<Rightarrow> fval"
  m_completionCallback :: "('w \<Rightarrow> 'w) option"

definition Animation_init :: "fval \<Rightarrow> fval \<Rightarrow> fval \<Rightarrow> (fval \<Rightarrow> fval) \<Rightarrow> 'w Animation" where
  "Animation_init startValue endValue duration easing =
     \<lparr>m_startValue = startValue, m_endValue = endValue, m_currentValue = startValue,
      m_duration = duration, m_elapsed = Finite 0.0, m_complete = False, m_paused = False,
      m_easing = easing, m_completionCallback = None\<rparr>"

definition update :: "'w Animation \<Rightarrow> fval \<Rightarrow> 'w \<Rightarrow> fval \<times> 'w Animation \<times> 'w" where
  "update a deltaTime w =
     (if m_complete a \<or> m_paused a then (m_currentValue a, a, w)
      else
        let a = a\<lparr>m_elapsed := fadd (m_elapsed a) deltaTime\<rparr>;
            t = fdiv (m_elapsed a) (m_duration a);
            (t, a, w) =
              (if fge t (Finite 1.0) then
                 (Finite 1.0, a\<lparr>m_complete := True\<rparr>,
                  case m_completionCallback a of None \<Rightarrow> w | Some callback \<Rightarrow> callback w)
               else (t, a, w));
            easedT = m_easing a t;
            a = a\<lparr>m_currentValue :=
                    fadd (m_startValue a) (fmul (fsub (m_endValue a) (m_startValue a)) easedT)\<rparr>
        in (m_currentValue a, a, w))"

definition getValue :: "'w Animation \<Rightarrow> fval" where
  "getValue a = m_currentValue a"

definition isComplete :: "'w Animation \<Rightarrow> bool" where
  "isComplete a = m_complete a"

definition reset :: "'w Animation \<Rightarrow> 'w Animation" where
  "reset a =
     a\<lparr>m_elapsed := Finite 0.0, m_complete := False, m_currentValue := m_startValue a\<rparr>"

definition reverse :: "'w Animation \<Rightarrow> 'w Animation" where
  "reverse a =
     a\<lparr>m_startValue := m_endValue a, m_endValue := m_startValue a,
       m_elapsed := Finite 0.0, m_complete := False\<rparr>"

definition onComplete :: "'w Animation \<Rightarrow> ('w \<Rightarrow> 'w) \<Rightarrow> 'w Animation" where
  "onComplete a callback = a\<lparr>m_completionCallback := Some callback\<rparr>"

definition setPaused :: "'w Animation \<Rightarrow> bool \<Rightarrow> 'w Animation" where
  "setPaused a paused = a\<lparr>m_paused := paused\<rparr>"

text \<open>Successive calls of \<^verbatim>\<open>update\<close>, one for each time step of the list.\<close>

fun updates :: "'w Animation \<Rightarrow> 'w \<Rightarrow> fval list \<Rightarrow> 'w Animation \<times> 'w" where
  "updates a w [] = (a, w)"
| "updates a w (deltaTime # rest) =
     (case update a deltaTime w of (v, a', w') \<Rightarrow> updates a' w' rest)"

section \<open>Test inputs\<close>

text \<open>The two boxes of the penetration-axis test.\<close>

definition axis_box_a :: AABB where
  "axis_box_a = \<lparr>min_corner = Vec3 (-1) (-1) (-1), max_corner = Vec3 1 1 1\<rparr>"

definition axis_box_b :: AABB where
  "axis_box_b = \<lparr>min_corner = Vec3 0.5 (-1) (-1), max_corner = Vec3 2.5 1 1\<rparr>"

text \<open>A unit box and a wall whose faces touch in the plane \<open>x = 1\<close>.\<close>

definition touching_box :: AABB where
  "touching_box = \<lparr>min_corner = Vec3 0 0 0, max_corner = Vec3 1 1 1\<rparr>"

definition touching_wall :: AABB where
  "touching_wall = \<lparr>min_corner = Vec3 1 0 0, max_corner = Vec3 2 1 1\<rparr>"

text \<open>A world of two walls and a box that enters the first by 1 and the second by 0.5.\<close>

definition two_walls :: CollisionWorld where
  "two_walls = \<lparr>m_staticBoxes =
     [\<lparr>min_corner = Vec3 1 (-5) (-5), max_corner = Vec3 6 5 5\<rparr>,
      \<lparr>min_corner = Vec3 (-5) 1.5 (-5), max_corner = Vec3 5 6 5\<rparr>]\<rparr>"

definition corner_box :: AABB where
  "corner_box = \<lparr>min_corner = Vec3 0 0 0, max_corner = Vec3 2 2 2\<rparr>"




text \<open>
  A wall far from the origin and a box that enters it by 0.5 along X; the box is centred
  at \<open>(99999.75, 0, 0)\<close>.
\<close>

definition far_wall :: AABB where
  "far_wall = \<lparr>min_corner = Vec3 100000 (-10) (-10), max_corner = Vec3 100010 10 10\<rparr>"

definition far_box :: AABB where
  "far_box = \<lparr>min_corner = Vec3 99999 (-1) (-1), max_corner = Vec3 100000.5 1 1\<rparr>"

text \<open>Three large upward mouse movements.\<close>

definition looking_up :: "(real \<times> real) list" where
  "looking_up = [(0, 5000), (0, 5000), (0, 5000)]"


text \<open>The default camera with orbit yaw 0, pitch 0, radius 5 around the origin.\<close>

definition orbit_camera :: Camera where
  "orbit_camera =
     Camera_init\<lparr>m_orbitTarget := Vec3 0 0 0, m_orbitRadius := 5, m_orbitYaw := 0, m_orbitPitch := 0\<rparr>"


text \<open>A session with a model: move it, read the matrix twice, rescale it, read again.\<close>

definition model_session :: "Model_op list" where
  "model_session =
     [SetPosition (Vec3 1 2 3), GetModelMatrix, GetModelMatrix, SetScaleUniform 2, GetModelMatrix]"


text \<open>
  A frame with one transparent model (address 0) and opaque ones, seen from the origin:
  the transparent model is submitted at distances 3, 1 and 5, an opaque one in between.
\<close>

definition glass_store :: "nat \<Rightarrow> Model" where
  "glass_store p = (if p = 0 then Model_init\<lparr>m_material := \<lparr>opacity = 0.5\<rparr>\<rparr> else Model_init)"

definition frame_renderer :: Renderer where
  "frame_renderer =
     \<lparr>m_opaqueCommands = [], m_transparentCommands = [], m_cameraPosition = Vec3 0 0 0,
      m_drawCallCount = 0, gl_trace = []\<rparr>"

definition frame_submissions :: "(nat \<times> mat4) list" where
  "frame_submissions =
     [(0, glm_translate (mat4_diag 1) (Vec3 3 0 0)),
      (1, glm_translate (mat4_diag 1) (Vec3 0 0 0)),
      (0, glm_translate (mat4_diag 1) (Vec3 1 0 0)),
      (0, glm_translate (mat4_diag 1) (Vec3 5 0 0))]"


text \<open>
  The animation of the completion test: from 0 to 10 over 2 seconds, linear easing, with
  a callback that counts its calls in a state of type \<open>nat\<close>.
\<close>

definition door_animation :: "nat Animation" where
  "door_animation =
     onComplete (Animation_init (Finite 0) (Finite 10) (Finite 2) linear_float) Suc"

text \<open>The same animation with duration zero.\<close>

definition instant_animation :: "nat Animation" where
  "instant_animation =
     onComplete (Animation_init (Finite 0) (Finite 10) (Finite 0) linear_float) Suc"

section \<open>Collision: the pairwise response\<close>


lemma response_no_overlap:
  "\<not> testAABBvsAABB a b \<Longrightarrow> testAABBvsAABBResponse a b = CollisionResult_init"
  by (simp add: testAABBvsAABBResponse_def Let_def)

lemma response_hit_iff: "hit (testAABBvsAABBResponse a b) = testAABBvsAABB a b"
  by (simp add: testAABBvsAABBResponse_def Let_def CollisionResult_init_def)


lemma response_positive_hit:
  "0 < penetration (testAABBvsAABBResponse a b) \<Longrightarrow> hit (testAABBvsAABBResponse a b)"
  by (cases "testAABBvsAABB a b")
    (simp_all add: response_hit_iff response_no_overlap CollisionResult_init_def)

lemma response_point:
  "testAABBvsAABB a b \<Longrightarrow> point (testAABBvsAABBResponse a b) =
     vscale (vadd (vmax (min_corner a) (min_corner b)) (vmin (max_corner a) (max_corner b))) (1/2)"
  by (simp add: testAABBvsAABBResponse_def Let_def)

lemma response_X:
  "testAABBvsAABB a b \<Longrightarrow> overlapX a b \<le> overlapY a b \<Longrightarrow> overlapX a b \<le> overlapZ a b \<Longrightarrow>
   penetration (testAABBvsAABBResponse a b) = overlapX a b \<and>
   normal (testAABBvsAABBResponse a b) =
     (if vx (getCenter a) < vx (getCenter b) then Vec3 (-1) 0 0 else Vec3 1 0 0)"
  by (simp add: testAABBvsAABBResponse_def Let_def)

lemma response_Y:
  "testAABBvsAABB a b \<Longrightarrow> overlapY a b < overlapX a b \<Longrightarrow> overlapY a b \<le> overlapZ a b \<Longrightarrow>
   penetration (testAABBvsAABBResponse a b) = overlapY a b \<and>
   normal (testAABBvsAABBResponse a b) =
     (if vy (getCenter a) < vy (getCenter b) then Vec3 0 (-1) 0 else Vec3 0 1 0)"
  by (simp add: testAABBvsAABBResponse_def Let_def)

lemma response_Z:
  "testAABBvsAABB a b \<Longrightarrow> overlapZ a b < overlapX a b \<Longrightarrow> overlapZ a b < overlapY a b \<Longrightarrow>
   penetration (testAABBvsAABBResponse a b) = overlapZ a b \<and>
   normal (testAABBvsAABBResponse a b) =
     (if vz (getCenter a) < vz (getCenter b) then Vec3 0 0 (-1) else Vec3 0 0 1)"
  by (simp add: testAABBvsAABBResponse_def Let_def)

lemma response_penetration_min:
  "testAABBvsAABB a b \<Longrightarrow>
   penetration (testAABBvsAABBResponse a b) = min (overlapX a b) (min (overlapY a b) (overlapZ a b))"
  by (simp add: testAABBvsAABBResponse_def Let_def min_def)

lemma response_normal_away:
  "testAABBvsAABB a b \<Longrightarrow>
   0 \<le> dot (normal (testAABBvsAABBResponse a b)) (vsub (getCenter a) (getCenter b))"
  by (simp add: testAABBvsAABBResponse_def Let_def dot_def vsub_def)

lemma axis_boxes_overlap: "testAABBvsAABB axis_box_a axis_box_b"
  by (simp add: axis_box_a_def axis_box_b_def testAABBvsAABB_def)

lemma axis_boxes_response:
  "penetration (testAABBvsAABBResponse axis_box_a axis_box_b) = 0.5
   \<and> normal (testAABBvsAABBResponse axis_box_a axis_box_b) = Vec3 (-1) 0 0
   \<and> overlapX axis_box_a axis_box_b < overlapY axis_box_a axis_box_b
   \<and> overlapX axis_box_a axis_box_b < overlapZ axis_box_a axis_box_b"
  by (simp add: testAABBvsAABBResponse_def Let_def axis_box_a_def axis_box_b_def
      testAABBvsAABB_def overlapX_def overlapY_def overlapZ_def getCenter_def vadd_def vscale_def)

text \<open>
  Claim C3.  For overlapping boxes \<open>a\<close> and \<open>b\<close>, with the overlap of an axis being
  \<open>min (aMax - bMin) (bMax - aMin)\<close>: the response is a hit; its penetration is the
  smallest of the three overlaps; the axis is X when the X overlap is smallest, Y when
  the Y overlap is smallest and strictly below X's, Z when the Z overlap is strictly
  below both; the normal is the unit vector of that axis, negative when \<open>a\<close>'s center
  lies below \<open>b\<close>'s on the axis and positive otherwise, so it never points towards
  \<open>b\<close>'s center; the contact point is \<open>(max(aMin,bMin) + min(aMax,bMax)) / 2\<close>.  For the
  boxes \<open>[(-1,-1,-1),(1,1,1)]\<close> and \<open>[(0.5,-1,-1),(2.5,1,1)]\<close> the axis is X, the
  normal \<open>(-1,0,0)\<close> and the penetration \<open>0.5\<close>.
\<close>

theorem testAABBvsAABBResponse_axis:
  "(testAABBvsAABB a b \<longrightarrow>
     (let r = testAABBvsAABBResponse a b;
          ox = min (vx (max_corner a) - vx (min_corner b)) (vx (max_corner b) - vx (min_corner a));
          oy = min (vy (max_corner a) - vy (min_corner b)) (vy (max_corner b) - vy (min_corner a));
          oz = min (vz (max_corner a) - vz (min_corner b)) (vz (max_corner b) - vz (min_corner a));
          ca = getCenter a; cb = getCenter b
      in hit r
       \<and> penetration r = min ox (min oy oz)
       \<and> (ox \<le> oy \<and> ox \<le> oz \<longrightarrow>
            penetration r = ox \<and> normal r = (if vx ca < vx cb then Vec3 (-1) 0 0 else Vec3 1 0 0))
       \<and> (oy < ox \<and> oy \<le> oz \<longrightarrow>
            penetration r = oy \<and> normal r = (if vy ca < vy cb then Vec3 0 (-1) 0 else Vec3 0 1 0))
       \<and> (oz < ox \<and> oz < oy \<longrightarrow>
            penetration r = oz \<and> normal r = (if vz ca < vz cb then Vec3 0 0 (-1) else Vec3 0 0 1))
       \<and> 0 \<le> dot (normal r) (vsub ca cb)
       \<and> point r = vscale (vadd (vmax (min_corner a) (min_corner b))
                                 (vmin (max_corner a) (max_corner b))) (1/2)))
   \<and> testAABBvsAABB axis_box_a axis_box_b
   \<and> overlapX axis_box_a axis_box_b < overlapY axis_box_a axis_box_b
   \<and> overlapX axis_box_a axis_box_b < overlapZ axis_box_a axis_box_b
   \<and> normal (testAABBvsAABBResponse axis_box_a axis_box_b) = Vec3 (-1) 0 0
   \<and> penetration (testAABBvsAABBResponse axis_box_a axis_box_b) = 0.5"
proof -
  have "testAABBvsAABB a b \<longrightarrow>
     (let r = testAABBvsAABBResponse a b;
          ox = min (vx (max_corner a) - vx (min_corner b)) (vx (max_corner b) - vx (min_corner a));
          oy = min (vy (max_corner a) - vy (min_corner b)) (vy (max_corner b) - vy (min_corner a));
          oz = min (vz (max_corner a) - vz (min_corner b)) (vz (max_corner b) - vz (min_corner a));
          ca = getCenter a; cb = getCenter b
      in hit r
       \<and> penetration r = min ox (min oy oz)
       \<and> (ox \<le> oy \<and> ox \<le> oz \<longrightarrow>
            penetration r = ox \<and> normal r = (if vx ca < vx cb then Vec3 (-1) 0 0 else Vec3 1 0 0))
       \<and> (oy < ox \<and> oy \<le> oz \<longrightarrow>
            penetration r = oy \<and> normal r = (if vy ca < vy cb then Vec3 0 (-1) 0 else Vec3 0 1 0))
       \<and> (oz < ox \<and> oz < oy \<longrightarrow>
            penetration r = oz \<and> normal r = (if vz ca < vz cb then Vec3 0 0 (-1) else Vec3 0 0 1))
       \<and> 0 \<le> dot (normal r) (vsub ca cb)
       \<and> point r = vscale (vadd (vmax (min_corner a) (min_corner b))
                                 (vmin (max_corner a) (max_corner b))) (1/2))"
  proof
    assume ov: "testAABBvsAABB a b"
    have h: "hit (testAABBvsAABBResponse a b)" using ov by (simp add: response_hit_iff)
    show "let r = testAABBvsAABBResponse a b;
          ox = min (vx (max_corner a) - vx (min_corner b)) (vx (max_corner b) - vx (min_corner a));
          oy = min (vy (max_corner a) - vy (min_corner b)) (vy (max_corner b) - vy (min_corner a));
          oz = min (vz (max_corner a) - vz (min_corner b)) (vz (max_corner b) - vz (min_corner a));
          ca = getCenter a; cb = getCenter b
      in hit r
       \<and> penetration r = min ox (min oy oz)
       \<and> (ox \<le> oy \<and> ox \<le> oz \<longrightarrow>
            penetration r = ox \<and> normal r = (if vx ca < vx cb then Vec3 (-1) 0 0 else Vec3 1 0 0))
       \<and> (oy < ox \<and> oy \<le> oz \<longrightarrow>
            penetration r = oy \<and> normal r = (if vy ca < vy cb then Vec3 0 (-1) 0 else Vec3 0 1 0))
       \<and> (oz < ox \<and> oz < oy \<longrightarrow>
            penetration r = oz \<and> normal r = (if vz ca < vz cb then Vec3 0 0 (-1) else Vec3 0 0 1))
       \<and> 0 \<le> dot (normal r) (vsub ca cb)
       \<and> point r = vscale (vadd (vmax (min_corner a) (min_corner b))
                                 (vmin (max_corner a) (max_corner b))) (1/2)"
      unfolding Let_def
      using h response_penetration_min[OF ov] response_X[OF ov] response_Y[OF ov]
        response_Z[OF ov] response_normal_away[OF ov] response_point[OF ov]
      unfolding overlapX_def overlapY_def overlapZ_def
      by blast
  qed
  with axis_boxes_overlap axis_boxes_response show ?thesis
    by blast
qed

theorem testAABBvsAABBResponse_axis_witness:
  "testAABBvsAABB axis_box_a axis_box_b
   \<and> hit (testAABBvsAABBResponse axis_box_a axis_box_b)
   \<and> penetration (testAABBvsAABBResponse axis_box_a axis_box_b) = 1/2
   \<and> normal (testAABBvsAABBResponse axis_box_a axis_box_b) = Vec3 (-1) 0 0
   \<and> point (testAABBvsAABBResponse axis_box_a axis_box_b) = Vec3 (3/4) 0 0"
proof -
  have ov: "testAABBvsAABB axis_box_a axis_box_b"
    by (simp add: axis_box_a_def axis_box_b_def testAABBvsAABB_def)
  show ?thesis
    using ov testAABBvsAABBResponse_axis[of axis_box_a axis_box_b]
    by (simp add: Let_def axis_box_a_def axis_box_b_def getCenter_def vadd_def vscale_def
        vmin_def vmax_def)
qed

section \<open>Collision: the deepest hit\<close>

lemma testAgainstStatic_loop_spec:
  "(testAgainstStatic_loop mb d bs = d \<and>
      (\<forall>x\<in>set bs. hit (testAABBvsAABBResponse mb x) \<longrightarrow>
          penetration (testAABBvsAABBResponse mb x) \<le> penetration d))
   \<or> (\<exists>pre b post. bs = pre @ b # post
        \<and> testAgainstStatic_loop mb d bs = testAABBvsAABBResponse mb b
        \<and> hit (testAABBvsAABBResponse mb b)
        \<and> penetration d < penetration (testAABBvsAABBResponse mb b)
        \<and> (\<forall>x\<in>set pre. hit (testAABBvsAABBResponse mb x) \<longrightarrow>
               penetration (testAABBvsAABBResponse mb x) < penetration (testAABBvsAABBResponse mb b))
        \<and> (\<forall>x\<in>set post. hit (testAABBvsAABBResponse mb x) \<longrightarrow>
               penetration (testAABBvsAABBResponse mb x) \<le> penetration (testAABBvsAABBResponse mb b)))"
proof (induction bs arbitrary: d)
  case Nil
  then show ?case by simp
next
  case (Cons c bs)
  let ?R = "testAABBvsAABBResponse mb"
  show ?case
  proof (cases "hit (?R c) \<and> penetration (?R c) > penetration d")
    case True
    then have step: "testAgainstStatic_loop mb d (c # bs) = testAgainstStatic_loop mb (?R c) bs"
      by (simp add: Let_def)
    from Cons.IH[of "?R c"] show ?thesis
    proof (elim disjE exE conjE)
      assume a: "testAgainstStatic_loop mb (?R c) bs = ?R c"
        and b: "\<forall>x\<in>set bs. hit (?R x) \<longrightarrow> penetration (?R x) \<le> penetration (?R c)"
      have "c # bs = [] @ c # bs" by simp
      with a b True step show ?thesis
        by (intro disjI2) (rule exI[of _ "[]"], auto)
    next
      fix pre b post
      assume a: "bs = pre @ b # post"
        "testAgainstStatic_loop mb (?R c) bs = ?R b"
        "hit (?R b)" "penetration (?R c) < penetration (?R b)"
        "\<forall>x\<in>set pre. hit (?R x) \<longrightarrow> penetration (?R x) < penetration (?R b)"
        "\<forall>x\<in>set post. hit (?R x) \<longrightarrow> penetration (?R x) \<le> penetration (?R b)"
      have "c # bs = (c # pre) @ b # post" using a(1) by simp
      moreover have "penetration d < penetration (?R b)" using True a(4) by simp
      ultimately show ?thesis using a step
        by (intro disjI2) (rule exI[of _ "c # pre"], rule exI[of _ b], rule exI[of _ post], auto)
    qed
  next
    case False
    then have step: "testAgainstStatic_loop mb d (c # bs) = testAgainstStatic_loop mb d bs"
      by (auto simp add: Let_def)
    from Cons.IH[of d] show ?thesis
    proof (elim disjE exE conjE)
      assume a: "testAgainstStatic_loop mb d bs = d"
        and b: "\<forall>x\<in>set bs. hit (?R x) \<longrightarrow> penetration (?R x) \<le> penetration d"
      with False step show ?thesis by (intro disjI1) auto
    next
      fix pre b post
      assume a: "bs = pre @ b # post"
        "testAgainstStatic_loop mb d bs = ?R b"
        "hit (?R b)" "penetration d < penetration (?R b)"
        "\<forall>x\<in>set pre. hit (?R x) \<longrightarrow> penetration (?R x) < penetration (?R b)"
        "\<forall>x\<in>set post. hit (?R x) \<longrightarrow> penetration (?R x) \<le> penetration (?R b)"
      have "c # bs = (c # pre) @ b # post" using a(1) by simp
      moreover have "hit (?R c) \<longrightarrow> penetration (?R c) < penetration (?R b)"
        using False a(4) by auto
      ultimately show ?thesis using a step
        by (intro disjI2) (rule exI[of _ "c # pre"], rule exI[of _ b], rule exI[of _ post], auto)
    qed
  qed
qed

lemma CollisionResult_init_penetration:
  "CollisionResult_init\<lparr>penetration := 0\<rparr> = CollisionResult_init"
  by (simp add: CollisionResult_init_def)

lemma touching_overlap: "testAABBvsAABB touching_box touching_wall"
  by (simp add: touching_box_def touching_wall_def testAABBvsAABB_def)

lemma touching_response:
  "hit (testAABBvsAABBResponse touching_box touching_wall)"
  "penetration (testAABBvsAABBResponse touching_box touching_wall) = 0"
  "normal (testAABBvsAABBResponse touching_box touching_wall) = Vec3 (-1) 0 0"
  by (simp_all add: testAABBvsAABBResponse_def Let_def touching_box_def touching_wall_def
      testAABBvsAABB_def overlapX_def overlapY_def overlapZ_def getCenter_def vadd_def vscale_def)

lemma touching_not_detected:
  "testAgainstStatic \<lparr>m_staticBoxes = [touching_wall]\<rparr> touching_box = CollisionResult_init"
  by (simp add: testAgainstStatic_def Let_def touching_response CollisionResult_init_def)

text \<open>
  Claim C2, as stated, fails: the unit box \<open>[(0,0,0),(1,1,1)]\<close> overlaps the static box
  \<open>[(1,0,0),(2,1,1)]\<close> (\<^verbatim>\<open>testAABBvsAABB\<close> is true, the pairwise response is a hit of
  penetration 0 and normal \<open>(-1,0,0)\<close>), yet \<^verbatim>\<open>testAgainstStatic\<close> returns the
  non-hit default result and not that pairwise response.
\<close>

theorem testAgainstStatic_touching_counterexample:
  "testAABBvsAABB touching_box touching_wall
   \<and> hit (testAABBvsAABBResponse touching_box touching_wall)
   \<and> \<not> hit (testAgainstStatic \<lparr>m_staticBoxes = [touching_wall]\<rparr> touching_box)
   \<and> testAgainstStatic \<lparr>m_staticBoxes = [touching_wall]\<rparr> touching_box
       \<noteq> testAABBvsAABBResponse touching_box touching_wall"
proof -
  have "\<not> hit (testAgainstStatic \<lparr>m_staticBoxes = [touching_wall]\<rparr> touching_box)"
    by (simp add: touching_not_detected CollisionResult_init_def)
  moreover from this touching_response(1)
  have "testAgainstStatic \<lparr>m_staticBoxes = [touching_wall]\<rparr> touching_box
       \<noteq> testAABBvsAABBResponse touching_box touching_wall"
    by metis
  ultimately show ?thesis
    using touching_overlap touching_response(1) by simp
qed

text \<open>
  Claim C2, amended.  When the moving box enters some static box with positive
  penetration, \<^verbatim>\<open>testAgainstStatic\<close> returns the pairwise response of a static box
  \<open>b\<close> that is a hit of positive penetration, such that every static box inserted
  before \<open>b\<close> has a strictly smaller penetration and every one inserted after \<open>b\<close> has
  a smaller or equal one (the pairwise penetration of a box that is not overlapped is
  0): the deepest, and on an exact tie the earliest.  Otherwise, in particular when
  no static box is overlapped, it returns the default result: no hit, penetration 0.
\<close>

theorem testAgainstStatic_deepest:
  "(if \<exists>b\<in>set (m_staticBoxes w). 0 < penetration (testAABBvsAABBResponse movingBox b)
    then \<exists>pre b post. m_staticBoxes w = pre @ b # post
        \<and> testAgainstStatic w movingBox = testAABBvsAABBResponse movingBox b
        \<and> hit (testAgainstStatic w movingBox)
        \<and> 0 < penetration (testAgainstStatic w movingBox)
        \<and> (\<forall>x\<in>set pre. penetration (testAABBvsAABBResponse movingBox x)
                           < penetration (testAABBvsAABBResponse movingBox b))
        \<and> (\<forall>x\<in>set post. penetration (testAABBvsAABBResponse movingBox x)
                           \<le> penetration (testAABBvsAABBResponse movingBox b))
    else testAgainstStatic w movingBox = CollisionResult_init
        \<and> \<not> hit (testAgainstStatic w movingBox)
        \<and> penetration (testAgainstStatic w movingBox) = 0)"
proof -
  let ?R = "testAABBvsAABBResponse movingBox"
  let ?bs = "m_staticBoxes w"
  have ts: "testAgainstStatic w movingBox = testAgainstStatic_loop movingBox CollisionResult_init ?bs"
    by (simp add: testAgainstStatic_def CollisionResult_init_penetration)
  have p0: "penetration CollisionResult_init = 0" "\<not> hit CollisionResult_init"
    by (simp_all add: CollisionResult_init_def)
  have nohit: "\<And>x. \<not> hit (?R x) \<Longrightarrow> penetration (?R x) = 0"
    by (simp add: response_hit_iff response_no_overlap CollisionResult_init_def)
  from testAgainstStatic_loop_spec[of movingBox CollisionResult_init ?bs] show ?thesis
  proof (elim disjE exE conjE)
    assume a: "testAgainstStatic_loop movingBox CollisionResult_init ?bs = CollisionResult_init"
      and b: "\<forall>x\<in>set ?bs. hit (?R x) \<longrightarrow> penetration (?R x) \<le> penetration CollisionResult_init"
    have "\<not> (\<exists>b\<in>set ?bs. 0 < penetration (?R b))"
    proof
      assume "\<exists>b\<in>set ?bs. 0 < penetration (?R b)"
      then obtain x where x: "x \<in> set ?bs" "0 < penetration (?R x)" by blast
      then have "hit (?R x)" by (simp add: response_positive_hit)
      with b x p0 show False by auto
    qed
    with a ts p0 show ?thesis by simp
  next
    fix pre b post
    assume a: "?bs = pre @ b # post"
      "testAgainstStatic_loop movingBox CollisionResult_init ?bs = ?R b"
      "hit (?R b)" "penetration CollisionResult_init < penetration (?R b)"
      "\<forall>x\<in>set pre. hit (?R x) \<longrightarrow> penetration (?R x) < penetration (?R b)"
      "\<forall>x\<in>set post. hit (?R x) \<longrightarrow> penetration (?R x) \<le> penetration (?R b)"
    have pos: "0 < penetration (?R b)" using a(4) p0 by simp
    have ex: "\<exists>b\<in>set ?bs. 0 < penetration (?R b)" using a(1) pos by auto
    have pre: "\<forall>x\<in>set pre. penetration (?R x) < penetration (?R b)"
    proof
      fix x assume "x \<in> set pre"
      then show "penetration (?R x) < penetration (?R b)"
        using a(5) nohit[of x] pos by (cases "hit (?R x)") auto
    qed
    have post: "\<forall>x\<in>set post. penetration (?R x) \<le> penetration (?R b)"
    proof
      fix x assume "x \<in> set post"
      then show "penetration (?R x) \<le> penetration (?R b)"
        using a(6) nohit[of x] pos by (cases "hit (?R x)") auto
    qed
    have "\<exists>pre b post. ?bs = pre @ b # post
        \<and> testAgainstStatic w movingBox = ?R b
        \<and> hit (testAgainstStatic w movingBox)
        \<and> 0 < penetration (testAgainstStatic w movingBox)
        \<and> (\<forall>x\<in>set pre. penetration (?R x) < penetration (?R b))
        \<and> (\<forall>x\<in>set post. penetration (?R x) \<le> penetration (?R b))"
      using a(1,2,3) pos pre post ts by (intro exI[of _ pre] exI[of _ b] exI[of _ post]) simp
    with ex show ?thesis by simp
  qed
qed

lemma two_walls_entered:
  "\<exists>b\<in>set (m_staticBoxes two_walls). 0 < penetration (testAABBvsAABBResponse corner_box b)"
  by (simp add: two_walls_def corner_box_def testAABBvsAABBResponse_def Let_def
      testAABBvsAABB_def overlapX_def overlapY_def overlapZ_def)

theorem testAgainstStatic_deepest_witness:
  "(\<exists>b\<in>set (m_staticBoxes two_walls). 0 < penetration (testAABBvsAABBResponse corner_box b))
   \<and> (\<exists>pre b post. m_staticBoxes two_walls = pre @ b # post
        \<and> testAgainstStatic two_walls corner_box = testAABBvsAABBResponse corner_box b
        \<and> hit (testAgainstStatic two_walls corner_box)
        \<and> 0 < penetration (testAgainstStatic two_walls corner_box)
        \<and> (\<forall>x\<in>set pre. penetration (testAABBvsAABBResponse corner_box x)
                           < penetration (testAABBvsAABBResponse corner_box b))
        \<and> (\<forall>x\<in>set post. penetration (testAABBvsAABBResponse corner_box x)
                           \<le> penetration (testAABBvsAABBResponse corner_box b)))"
  using testAgainstStatic_deepest[of two_walls corner_box] two_walls_entered
  by (simp only: if_True simp_thms)

section \<open>Collision: resolving penetration\<close>


lemma loop_push:
  "i < 4 \<Longrightarrow> hit (testAgainstStatic w tb) \<Longrightarrow>
   resolveCollisions_loop rnd w i tb p =
     resolveCollisions_loop rnd w (i + 1)
       (translateBox rnd tb
          (vscale_rounded rnd (normal (testAgainstStatic w tb))
             (rnd (penetration (testAgainstStatic w tb) + rnd 0.001))))
       (vadd_rounded rnd p
          (vscale_rounded rnd (normal (testAgainstStatic w tb))
             (rnd (penetration (testAgainstStatic w tb) + rnd 0.001))))"
  by (subst resolveCollisions_loop.simps) (simp add: Let_def)

lemma loop_stop:
  "\<not> hit (testAgainstStatic w tb) \<Longrightarrow> resolveCollisions_loop rnd w i tb p = (p, tb, i)"
  by (subst resolveCollisions_loop.simps) (simp add: Let_def)




lemma testAgainstStatic_single:
  "testAgainstStatic \<lparr>m_staticBoxes = [wall]\<rparr> a =
     (if 0 < penetration (testAABBvsAABBResponse a wall)
      then testAABBvsAABBResponse a wall else CollisionResult_init)"
  using response_positive_hit[of a wall]
  by (auto simp: testAgainstStatic_def Let_def CollisionResult_init_def)


lemma single_wall_first_push:
  assumes "0 < penetration (testAABBvsAABBResponse a wall)"
  shows "resolveCollisions_loop rnd \<lparr>m_staticBoxes = [wall]\<rparr> 0 a p =
     resolveCollisions_loop rnd \<lparr>m_staticBoxes = [wall]\<rparr> 1
       (translateBox rnd a
          (vscale_rounded rnd (normal (testAABBvsAABBResponse a wall))
             (rnd (penetration (testAABBvsAABBResponse a wall) + rnd 0.001))))
       (vadd_rounded rnd p
          (vscale_rounded rnd (normal (testAABBvsAABBResponse a wall))
             (rnd (penetration (testAABBvsAABBResponse a wall) + rnd 0.001))))"
proof -
  have t: "testAgainstStatic \<lparr>m_staticBoxes = [wall]\<rparr> a = testAABBvsAABBResponse a wall"
    using assms by (simp add: testAgainstStatic_single)
  have h: "hit (testAgainstStatic \<lparr>m_staticBoxes = [wall]\<rparr> a)"
    unfolding t using assms by (rule response_positive_hit)
  show ?thesis
    using loop_push[of 0 "\<lparr>m_staticBoxes = [wall]\<rparr>" a rnd p, OF _ h] unfolding t by simp
qed



lemma far_box_response:
  "testAgainstStatic \<lparr>m_staticBoxes = [far_wall]\<rparr> far_box
     = \<lparr>hit = True, point = Vec3 100000.25 0 0, normal = Vec3 (-1) 0 0, penetration = 0.5\<rparr>"
  by (simp add: testAgainstStatic_def Let_def far_box_def far_wall_def testAABBvsAABBResponse_def
      testAABBvsAABB_def overlapX_def overlapY_def overlapZ_def getCenter_def vadd_def vscale_def
      vmin_def vmax_def CollisionResult_init_def vec3_splat_def)

lemma far_box_pushed:
  "\<not> hit (testAgainstStatic \<lparr>m_staticBoxes = [far_wall]\<rparr>
            \<lparr>min_corner = Vec3 99998.5 (-1) (-1), max_corner = Vec3 100000 1 1\<rparr>)"
  "testAABBvsAABB \<lparr>min_corner = Vec3 99998.5 (-1) (-1), max_corner = Vec3 100000 1 1\<rparr> far_wall"
  by (simp_all add: testAgainstStatic_def Let_def far_wall_def testAABBvsAABBResponse_def
      testAABBvsAABB_def overlapX_def overlapY_def overlapZ_def CollisionResult_init_def)

lemma far_box_enters:
  "0 < penetration (testAABBvsAABBResponse far_box far_wall)"
  using far_box_response
  by (simp add: testAgainstStatic_single CollisionResult_init_def split: if_splits)

lemma far_box_push:
  "vscale_rounded binary32 (Vec3 (-1) 0 0) (binary32 (0.5 + binary32 0.001))
     = Vec3 (- (8405385 / 2 ^ 24)) 0 0"
  "translateBox binary32 far_box (Vec3 (- (8405385 / 2 ^ 24)) 0 0)
     = \<lparr>min_corner = Vec3 99998.5 (-1) (-1), max_corner = Vec3 100000 1 1\<rparr>"
  "vadd_rounded binary32 (Vec3 99999.75 0 0) (Vec3 (- (8405385 / 2 ^ 24)) 0 0)
     = Vec3 99999.25 0 0"
  by code_simp+

lemma far_box_run:
  "resolveCollisions_loop binary32 \<lparr>m_staticBoxes = [far_wall]\<rparr> 0 far_box (Vec3 99999.75 0 0)
     = (Vec3 99999.25 0 0,
        \<lparr>min_corner = Vec3 99998.5 (-1) (-1), max_corner = Vec3 100000 1 1\<rparr>, 1)"
proof -
  let ?w = "\<lparr>m_staticBoxes = [far_wall]\<rparr>"
  let ?b = "\<lparr>min_corner = Vec3 99998.5 (-1) (-1), max_corner = Vec3 100000 1 1\<rparr>"
  have h: "hit (testAgainstStatic ?w far_box)"
    by (simp add: far_box_response)
  have lt: "(0::nat) < 4"
    by simp
  have "resolveCollisions_loop binary32 ?w 0 far_box (Vec3 99999.75 0 0)
          = resolveCollisions_loop binary32 ?w (0 + 1)
              (translateBox binary32 far_box
                 (vscale_rounded binary32 (Vec3 (-1) 0 0) (binary32 (0.5 + binary32 0.001))))
              (vadd_rounded binary32 (Vec3 99999.75 0 0)
                 (vscale_rounded binary32 (Vec3 (-1) 0 0) (binary32 (0.5 + binary32 0.001))))"
    using loop_push[OF lt h, of binary32 "Vec3 99999.75 0 0"] unfolding far_box_response
    by simp
  also have "\<dots> = resolveCollisions_loop binary32 ?w (0 + 1) ?b (Vec3 99999.25 0 0)"
    by (simp only: far_box_push)
  also have "\<dots> = (Vec3 99999.25 0 0, ?b, 1)"
    using loop_stop[OF far_box_pushed(1)] by simp
  finally show ?thesis .
qed

text \<open>
  In \<^verbatim>\<open>float\<close> arithmetic the push can be lost to rounding.  The box
  \<open>[(99999,-1,-1),(100000.5,1,1)]\<close> enters the single wall
  \<open>[(100000,-10,-10),(100010,10,10)]\<close> by 0.5.  The push is \<open>0.5 + 0.001\<close> along
  \<open>-X\<close>, but floats near 100000 are \<open>1/128\<close> apart: the box's face lands on 100000,
  exactly on the wall.  The second iteration reports no hit, the loop stops after one
  push, and a fresh \<^verbatim>\<open>testAABBvsAABB\<close> of the corrected box against the wall is true.
\<close>

theorem resolveCollisions_binary32_absorbed:
  "0 < penetration (testAABBvsAABBResponse far_box far_wall)
   \<and> resolveCollisions_loop binary32 \<lparr>m_staticBoxes = [far_wall]\<rparr> 0 far_box (Vec3 99999.75 0 0)
       = (Vec3 99999.25 0 0,
          \<lparr>min_corner = Vec3 99998.5 (-1) (-1), max_corner = Vec3 100000 1 1\<rparr>, 1)
   \<and> testAABBvsAABB \<lparr>min_corner = Vec3 99998.5 (-1) (-1), max_corner = Vec3 100000 1 1\<rparr> far_wall"
  using far_box_enters far_box_run far_box_pushed(2) by simp



text \<open>
  With exact arithmetic (the identity as rounding) the push does what it is meant to do:
  one push takes a box that entered a single wall with positive depth clear of the wall.
\<close>

lemma push_separates_exact:
  assumes ov: "testAABBvsAABB a b"
  shows "\<not> testAABBvsAABB
           (translateBox (\<lambda>x. x) a
              (vscale_rounded (\<lambda>x. x) (normal (testAABBvsAABBResponse a b))
                 (penetration (testAABBvsAABBResponse a b) + 0.001))) b"
proof -
  consider (X) "overlapX a b \<le> overlapY a b" "overlapX a b \<le> overlapZ a b"
    | (Y) "overlapY a b < overlapX a b" "overlapY a b \<le> overlapZ a b"
    | (Z) "overlapZ a b < overlapX a b" "overlapZ a b < overlapY a b"
    by linarith
  then show ?thesis
  proof cases
    case X
    from response_X[OF ov X] show ?thesis
      by (auto simp: testAABBvsAABB_def translateBox_def vadd_rounded_def vscale_rounded_def
          overlapX_def getCenter_def vadd_def vscale_def min_def split: if_splits)
  next
    case Y
    from response_Y[OF ov Y] show ?thesis
      by (auto simp: testAABBvsAABB_def translateBox_def vadd_rounded_def vscale_rounded_def
          overlapY_def getCenter_def vadd_def vscale_def min_def split: if_splits)
  next
    case Z
    from response_Z[OF ov Z] show ?thesis
      by (auto simp: testAABBvsAABB_def translateBox_def vadd_rounded_def vscale_rounded_def
          overlapZ_def getCenter_def vadd_def vscale_def min_def split: if_splits)
  qed
qed

lemma single_wall_resolved_exact:
  assumes pos: "0 < penetration (testAABBvsAABBResponse a wall)"
  shows "snd (snd (resolveCollisions_loop (\<lambda>x. x) \<lparr>m_staticBoxes = [wall]\<rparr> 0 a p)) = 1
     \<and> \<not> testAABBvsAABB
           (fst (snd (resolveCollisions_loop (\<lambda>x. x) \<lparr>m_staticBoxes = [wall]\<rparr> 0 a p))) wall"
proof -
  let ?w = "\<lparr>m_staticBoxes = [wall]\<rparr>"
  let ?r = "testAABBvsAABBResponse a wall"
  let ?push = "vscale_rounded (\<lambda>x. x) (normal ?r) (penetration ?r + 0.001)"
  have ov: "testAABBvsAABB a wall"
    using response_positive_hit[OF pos] by (simp add: response_hit_iff)
  have sep: "\<not> testAABBvsAABB (translateBox (\<lambda>x. x) a ?push) wall"
    using push_separates_exact[OF ov] .
  then have nh: "\<not> hit (testAgainstStatic ?w (translateBox (\<lambda>x. x) a ?push))"
    by (simp add: testAgainstStatic_single response_no_overlap CollisionResult_init_def)
  have "resolveCollisions_loop (\<lambda>x. x) ?w 0 a p =
        resolveCollisions_loop (\<lambda>x. x) ?w 1 (translateBox (\<lambda>x. x) a ?push)
          (vadd_rounded (\<lambda>x. x) p ?push)"
    using single_wall_first_push[OF pos, of "\<lambda>x. x" p] by simp
  also have "\<dots> = (vadd_rounded (\<lambda>x. x) p ?push, translateBox (\<lambda>x. x) a ?push, 1)"
    using loop_stop[OF nh] by simp
  finally show ?thesis using sep by simp
qed

section \<open>Camera: the pitch clamp\<close>

lemma clamp_range: "lo \<le> hi \<Longrightarrow> lo \<le> clamp v lo hi \<and> clamp v lo hi \<le> hi"
  by (simp add: clamp_def)

lemma updateCameraVectors_fields:
  "m_pitch (updateCameraVectors c) = m_pitch c"
  "m_yaw (updateCameraVectors c) = m_yaw c"
  "m_mode (updateCameraVectors c) = m_mode c"
  "m_mouseSensitivity (updateCameraVectors c) = m_mouseSensitivity c"
  by (simp_all add: updateCameraVectors_def Let_def)

lemma processMouseMovement_free_roam:
  assumes "m_mode c = FREE_ROAM"
  shows "m_pitch (processMouseMovement c xoffset yoffset True) =
           clamp (m_pitch c + yoffset * m_mouseSensitivity c) (-89) 89"
    and "m_mode (processMouseMovement c xoffset yoffset True) = FREE_ROAM"
  using assms by (simp_all add: processMouseMovement_def Let_def updateCameraVectors_fields)

lemma processMouseMovements_free_roam:
  "m_mode c = FREE_ROAM \<Longrightarrow> - 89 \<le> m_pitch c \<Longrightarrow> m_pitch c \<le> 89 \<Longrightarrow>
   m_mode (processMouseMovements c ds) = FREE_ROAM
   \<and> - 89 \<le> m_pitch (processMouseMovements c ds)
   \<and> m_pitch (processMouseMovements c ds) \<le> 89"
proof (induction ds arbitrary: c)
  case Nil
  then show ?case by (simp add: processMouseMovements_def)
next
  case (Cons d ds)
  obtain x y where d: "d = (x, y)" by (cases d)
  let ?c = "processMouseMovement c x y True"
  have step: "processMouseMovements c (d # ds) = processMouseMovements ?c ds"
    by (simp add: processMouseMovements_def d)
  have "m_mode ?c = FREE_ROAM" "- 89 \<le> m_pitch ?c" "m_pitch ?c \<le> 89"
    using Cons.prems(1) clamp_range[of "-89" 89]
    by (simp_all add: processMouseMovement_free_roam)
  from Cons.IH[OF this] show ?case by (simp add: step)
qed

lemma Camera_init_fields:
  "m_mode Camera_init = FREE_ROAM" "m_pitch Camera_init = 0" "m_mouseSensitivity Camera_init = 0.1"
  by (simp_all add: Camera_init_def updateCameraVectors_fields)

text \<open>
  Claim C5.  In \<open>FREE_ROAM\<close> mode a call of \<^verbatim>\<open>processMouseMovement\<close> with the pitch
  constraint enabled leaves the pitch between \<open>-89\<close> and \<open>89\<close> (and the mode unchanged),
  whatever the offsets and the sensitivity; hence from a pitch in that range no sequence
  of such calls takes the pitch above \<open>89\<close> or below \<open>-89\<close>.
\<close>

theorem pitch_clamp:
  "(m_mode c = FREE_ROAM \<longrightarrow>
      - 89 \<le> m_pitch (processMouseMovement c xoffset yoffset True)
      \<and> m_pitch (processMouseMovement c xoffset yoffset True) \<le> 89
      \<and> m_mode (processMouseMovement c xoffset yoffset True) = FREE_ROAM)
   \<and> (m_mode c = FREE_ROAM \<and> - 89 \<le> m_pitch c \<and> m_pitch c \<le> 89 \<longrightarrow>
        - 89 \<le> m_pitch (processMouseMovements c ds)
        \<and> m_pitch (processMouseMovements c ds) \<le> 89)"
  using processMouseMovements_free_roam[of c ds] clamp_range[of "-89" 89]
  by (simp add: processMouseMovement_free_roam)

theorem pitch_clamp_witness:
  "m_mode Camera_init = FREE_ROAM \<and> - 89 \<le> m_pitch Camera_init \<and> m_pitch Camera_init \<le> 89
   \<and> m_pitch (processMouseMovement Camera_init 0 5000 True) = 89
   \<and> m_pitch (processMouseMovements Camera_init looking_up) \<le> 89"
  using pitch_clamp[of Camera_init 0 5000 looking_up]
  by (simp add: Camera_init_fields processMouseMovement_free_roam clamp_def)


section \<open>Camera: the orbit position\<close>

lemma spherical_unit:
  "(cos p * cos y) * (cos p * cos y) + sin p * sin p + (cos p * sin y) * (cos p * sin y) = (1::real)"
proof -
  have y: "cos y * cos y + sin y * sin y = 1"
    using sin_cos_squared_add2[of y] by (simp add: power2_eq_square)
  have p: "cos p * cos p + sin p * sin p = 1"
    using sin_cos_squared_add2[of p] by (simp add: power2_eq_square)
  have "(cos p * cos y) * (cos p * cos y) + sin p * sin p + (cos p * sin y) * (cos p * sin y)
        = cos p * cos p * (cos y * cos y + sin y * sin y) + sin p * sin p"
    by (simp only: distrib_left mult_ac)
  also have "\<dots> = 1" by (simp only: y p mult_1_right)
  finally show ?thesis .
qed

lemma offset_dot:
  "dot (Vec3 (r * cos p * cos y) (r * sin p) (r * cos p * sin y))
       (Vec3 (r * cos p * cos y) (r * sin p) (r * cos p * sin y)) = r * r"
proof -
  have "dot (Vec3 (r * cos p * cos y) (r * sin p) (r * cos p * sin y))
            (Vec3 (r * cos p * cos y) (r * sin p) (r * cos p * sin y))
        = r * r * ((cos p * cos y) * (cos p * cos y) + sin p * sin p + (cos p * sin y) * (cos p * sin y))"
    by (simp add: dot_def algebra_simps)
  then show ?thesis by (simp only: spherical_unit mult_1_right)
qed

lemma vsub_vadd_self: "vsub t (vadd t v) = vscale v (-1)"
  by (cases t, cases v) (simp add: vsub_def vadd_def vscale_def)

lemma dot_vscale: "dot (vscale v k) (vscale v k) = k * k * dot v v"
  by (simp add: dot_def vscale_def algebra_simps)

lemma updateOrbitPosition_position:
  "m_cam_position (updateOrbitPosition c) =
     vadd (m_orbitTarget c)
       (Vec3 (m_orbitRadius c * cos (radians (m_orbitPitch c)) * cos (radians (m_orbitYaw c)))
             (m_orbitRadius c * sin (radians (m_orbitPitch c)))
             (m_orbitRadius c * cos (radians (m_orbitPitch c)) * sin (radians (m_orbitYaw c))))"
  by (simp add: updateOrbitPosition_def Let_def)

lemma updateOrbitPosition_front:
  "m_front (updateOrbitPosition c) =
     normalize (vsub (m_orbitTarget c) (m_cam_position (updateOrbitPosition c)))"
  by (simp add: updateOrbitPosition_def Let_def)

lemma updateOrbitPosition_front_unit:
  assumes "0 < m_orbitRadius c"
  shows "m_front (updateOrbitPosition c) =
     Vec3 (- (cos (radians (m_orbitPitch c)) * cos (radians (m_orbitYaw c))))
          (- sin (radians (m_orbitPitch c)))
          (- (cos (radians (m_orbitPitch c)) * sin (radians (m_orbitYaw c))))"
proof -
  let ?r = "m_orbitRadius c"
  let ?p = "radians (m_orbitPitch c)"
  let ?y = "radians (m_orbitYaw c)"
  let ?off = "Vec3 (?r * cos ?p * cos ?y) (?r * sin ?p) (?r * cos ?p * sin ?y)"
  have "dot (vscale ?off (-1)) (vscale ?off (-1)) = ?r * ?r"
    by (simp add: dot_vscale offset_dot)
  then have s: "sqrt (dot (vscale ?off (-1)) (vscale ?off (-1))) = ?r"
    using assms by simp
  have "m_front (updateOrbitPosition c) = normalize (vscale ?off (-1))"
    by (simp only: updateOrbitPosition_front updateOrbitPosition_position vsub_vadd_self)
  also have "\<dots> = vscale (vscale ?off (-1)) (1 / ?r)"
    by (simp only: normalize_def s)
  also have "\<dots> = Vec3 (- (cos ?p * cos ?y)) (- sin ?p) (- (cos ?p * sin ?y))"
    using assms by (simp add: vscale_def)
  finally show ?thesis .
qed

lemma orbit_camera_fields:
  "m_orbitTarget orbit_camera = Vec3 0 0 0" "m_orbitRadius orbit_camera = 5"
  "m_orbitYaw orbit_camera = 0" "m_orbitPitch orbit_camera = 0"
  by (simp_all add: orbit_camera_def)

text \<open>
  Claim C6.  \<^verbatim>\<open>updateOrbitPosition\<close> puts the camera at
  \<open>target + radius * (cos pitch * cos yaw, sin pitch, cos pitch * sin yaw)\<close> (angles
  converted from degrees) and sets the front vector to the normalised direction from
  the new position to the target; for a positive radius the front vector has unit length
  and leads from the position straight to the target.  Entering \<open>ORBIT\<close> mode, and in
  \<open>ORBIT\<close> mode every mouse movement, keyboard step, scroll step and change of the
  orbit target or radius, end with this recomputation.  With yaw 0, pitch 0,
  radius 5 and target \<open>(0,0,0)\<close> the camera is at \<open>(5,0,0)\<close> with front \<open>(-1,0,0)\<close>.
\<close>

theorem orbit_position:
  "m_cam_position (updateOrbitPosition c) =
     vadd (m_orbitTarget c)
       (Vec3 (m_orbitRadius c * cos (radians (m_orbitPitch c)) * cos (radians (m_orbitYaw c)))
             (m_orbitRadius c * sin (radians (m_orbitPitch c)))
             (m_orbitRadius c * cos (radians (m_orbitPitch c)) * sin (radians (m_orbitYaw c))))
   \<and> m_front (updateOrbitPosition c) =
       normalize (vsub (m_orbitTarget c) (m_cam_position (updateOrbitPosition c)))
   \<and> (0 < m_orbitRadius c \<longrightarrow>
        dot (m_front (updateOrbitPosition c)) (m_front (updateOrbitPosition c)) = 1
        \<and> vadd (m_cam_position (updateOrbitPosition c))
               (vscale (m_front (updateOrbitPosition c)) (m_orbitRadius c)) = m_orbitTarget c)
   \<and> setMode c ORBIT = updateOrbitPosition (c\<lparr>m_mode := ORBIT\<rparr>)
   \<and> (m_mode c = ORBIT \<longrightarrow>
        processMouseMovement c xoffset yoffset constrainPitch =
          updateOrbitPosition
            (c\<lparr>m_orbitYaw := m_orbitYaw c - xoffset * m_mouseSensitivity c,
               m_orbitPitch := clamp (m_orbitPitch c + yoffset * m_mouseSensitivity c) (-80) 80\<rparr>)
        \<and> processKeyboard c forward right up deltaTime =
          updateOrbitPosition
            (c\<lparr>m_orbitYaw := m_orbitYaw c + right * (m_movementSpeed c * deltaTime) * 20,
               m_orbitPitch :=
                 clamp (m_orbitPitch c + up * (m_movementSpeed c * deltaTime) * 20) (-80) 80,
               m_orbitRadius :=
                 clamp (m_orbitRadius c - forward * (m_movementSpeed c * deltaTime) * 2) 2 20\<rparr>)
        \<and> processMouseScroll c yoffset =
          updateOrbitPosition (c\<lparr>m_orbitRadius := clamp (m_orbitRadius c - yoffset * 0.5) 2 20\<rparr>)
        \<and> setOrbitTarget c target = updateOrbitPosition (c\<lparr>m_orbitTarget := target\<rparr>)
        \<and> setOrbitRadius c radius =
          updateOrbitPosition (c\<lparr>m_orbitRadius := clamp radius 1 50\<rparr>))
   \<and> m_cam_position (updateOrbitPosition orbit_camera) = Vec3 5 0 0
   \<and> m_front (updateOrbitPosition orbit_camera) = Vec3 (-1) 0 0"
proof -
  have front: "0 < m_orbitRadius c \<longrightarrow>
        dot (m_front (updateOrbitPosition c)) (m_front (updateOrbitPosition c)) = 1
        \<and> vadd (m_cam_position (updateOrbitPosition c))
               (vscale (m_front (updateOrbitPosition c)) (m_orbitRadius c)) = m_orbitTarget c"
  proof
    assume r: "0 < m_orbitRadius c"
    have "dot (m_front (updateOrbitPosition c)) (m_front (updateOrbitPosition c)) = 1"
      using spherical_unit[of "radians (m_orbitPitch c)" "radians (m_orbitYaw c)"]
      by (simp add: updateOrbitPosition_front_unit[OF r] dot_def)
    moreover have "vadd (m_cam_position (updateOrbitPosition c))
               (vscale (m_front (updateOrbitPosition c)) (m_orbitRadius c)) = m_orbitTarget c"
      by (cases "m_orbitTarget c")
        (simp add: updateOrbitPosition_front_unit[OF r] updateOrbitPosition_position
          vadd_def vscale_def algebra_simps)
    ultimately show "dot (m_front (updateOrbitPosition c)) (m_front (updateOrbitPosition c)) = 1
        \<and> vadd (m_cam_position (updateOrbitPosition c))
               (vscale (m_front (updateOrbitPosition c)) (m_orbitRadius c)) = m_orbitTarget c"
      by simp
  qed
  have mode: "setMode c ORBIT = updateOrbitPosition (c\<lparr>m_mode := ORBIT\<rparr>)"
    by (simp add: setMode_def)
  have mouse: "m_mode c = ORBIT \<longrightarrow>
        processMouseMovement c xoffset yoffset constrainPitch =
          updateOrbitPosition
            (c\<lparr>m_orbitYaw := m_orbitYaw c - xoffset * m_mouseSensitivity c,
               m_orbitPitch := clamp (m_orbitPitch c + yoffset * m_mouseSensitivity c) (-80) 80\<rparr>)
        \<and> processKeyboard c forward right up deltaTime =
          updateOrbitPosition
            (c\<lparr>m_orbitYaw := m_orbitYaw c + right * (m_movementSpeed c * deltaTime) * 20,
               m_orbitPitch :=
                 clamp (m_orbitPitch c + up * (m_movementSpeed c * deltaTime) * 20) (-80) 80,
               m_orbitRadius :=
                 clamp (m_orbitRadius c - forward * (m_movementSpeed c * deltaTime) * 2) 2 20\<rparr>)
        \<and> processMouseScroll c yoffset =
          updateOrbitPosition (c\<lparr>m_orbitRadius := clamp (m_orbitRadius c - yoffset * 0.5) 2 20\<rparr>)
        \<and> setOrbitTarget c target = updateOrbitPosition (c\<lparr>m_orbitTarget := target\<rparr>)
        \<and> setOrbitRadius c radius =
          updateOrbitPosition (c\<lparr>m_orbitRadius := clamp radius 1 50\<rparr>)"
    by (simp add: processMouseMovement_def processKeyboard_def processMouseScroll_def
        setOrbitTarget_def setOrbitRadius_def Let_def)
  have ex1: "m_cam_position (updateOrbitPosition orbit_camera) = Vec3 5 0 0"
    by (simp add: updateOrbitPosition_position orbit_camera_fields radians_def vadd_def)
  have ex2: "m_front (updateOrbitPosition orbit_camera) = Vec3 (-1) 0 0"
    by (simp add: updateOrbitPosition_front_unit orbit_camera_fields radians_def)
  from updateOrbitPosition_position[of c] updateOrbitPosition_front[of c] front mode mouse ex1 ex2
  show ?thesis by (intro conjI)
qed

theorem orbit_position_witness:
  "0 < m_orbitRadius orbit_camera
   \<and> m_cam_position (updateOrbitPosition orbit_camera) = Vec3 5 0 0
   \<and> vadd (Vec3 5 0 0) (vscale (m_front (updateOrbitPosition orbit_camera)) 5) = Vec3 0 0 0"
proof -
  have r: "0 < m_orbitRadius orbit_camera"
    by (simp add: orbit_camera_fields)
  from orbit_position[of orbit_camera] r
  have p: "m_cam_position (updateOrbitPosition orbit_camera) = Vec3 5 0 0"
    and t: "vadd (m_cam_position (updateOrbitPosition orbit_camera))
              (vscale (m_front (updateOrbitPosition orbit_camera)) (m_orbitRadius orbit_camera))
            = m_orbitTarget orbit_camera"
    by blast+
  show ?thesis
    using r t by (simp add: p orbit_camera_fields)
qed


section \<open>Model: the cached matrix\<close>

lemma mat_mul_assoc: "mat_mul (mat_mul a b) c = mat_mul a (mat_mul b c)"
proof -
  have "mat_vec (mat_mul a b) v = mat_vec a (mat_vec b v)" for v
    by (cases v) (simp add: mat_vec_def mat_mul_def v4add_def v4scale_def algebra_simps)
  then have "mat_mul (mat_mul a b) c =
      Mat4 (mat_vec a (mat_vec b (col0 c))) (mat_vec a (mat_vec b (col1 c)))
           (mat_vec a (mat_vec b (col2 c))) (mat_vec a (mat_vec b (col3 c)))"
    by (simp add: mat_mul_def[of "mat_mul a b"])
  also have "\<dots> = mat_mul a (mat_mul b c)"
    by (simp add: mat_mul_def[of a] mat_mul_def[of b])
  finally show ?thesis .
qed

lemma mat_mul_identity: "mat_mul (mat4_diag 1) a = a"
proof (cases a)
  case (Mat4 c0 c1 c2 c3)
  then show ?thesis
    by (cases c0, cases c1, cases c2, cases c3)
      (simp add: mat_mul_def mat_vec_def mat4_diag_def v4add_def v4scale_def)
qed

lemma glm_translate_mul: "glm_translate m v = mat_mul m (translation_matrix v)"
proof (cases m)
  case (Mat4 c0 c1 c2 c3)
  then show ?thesis
    by (cases c0, cases c1, cases c2, cases c3)
      (simp add: glm_translate_def mat_mul_def mat_vec_def translation_matrix_def v4add_def v4scale_def)
qed

lemma glm_scale_mul: "glm_scale m v = mat_mul m (scale_matrix v)"
proof (cases m)
  case (Mat4 c0 c1 c2 c3)
  then show ?thesis
    by (cases c0, cases c1, cases c2, cases c3)
      (simp add: glm_scale_def mat_mul_def mat_vec_def scale_matrix_def v4add_def v4scale_def)
qed

lemma normalize_axes:
  "normalize (Vec3 0 0 1) = Vec3 0 0 1" "normalize (Vec3 0 1 0) = Vec3 0 1 0"
  "normalize (Vec3 1 0 0) = Vec3 1 0 0"
  by (simp_all add: normalize_def dot_def vscale_def)

lemma glm_rotate_z: "glm_rotate m a (Vec3 0 0 1) = mat_mul m (rotationZ_matrix a)"
proof (cases m)
  case (Mat4 c0 c1 c2 c3)
  then show ?thesis
    by (cases c0, cases c1, cases c2, cases c3)
      (simp add: glm_rotate_def Let_def normalize_axes vscale_def mat_mul_def mat_vec_def
        rotationZ_matrix_def v4add_def v4scale_def)
qed

lemma glm_rotate_y: "glm_rotate m a (Vec3 0 1 0) = mat_mul m (rotationY_matrix a)"
proof (cases m)
  case (Mat4 c0 c1 c2 c3)
  then show ?thesis
    by (cases c0, cases c1, cases c2, cases c3)
      (simp add: glm_rotate_def Let_def normalize_axes vscale_def mat_mul_def mat_vec_def
        rotationY_matrix_def v4add_def v4scale_def)
qed

lemma glm_rotate_x: "glm_rotate m a (Vec3 1 0 0) = mat_mul m (rotationX_matrix a)"
proof (cases m)
  case (Mat4 c0 c1 c2 c3)
  then show ?thesis
    by (cases c0, cases c1, cases c2, cases c3)
      (simp add: glm_rotate_def Let_def normalize_axes vscale_def mat_mul_def mat_vec_def
        rotationX_matrix_def v4add_def v4scale_def)
qed

lemma updateModelMatrix_world:
  "m_modelMatrix (updateModelMatrix m) =
     spec_worldMatrix (m_position m) (m_rotation m) (m_scale m)"
  by (simp add: updateModelMatrix_def Let_def spec_worldMatrix_def glm_translate_mul glm_rotate_z
      glm_rotate_y glm_rotate_x glm_scale_mul mat_mul_assoc mat_mul_identity)

lemma updateModelMatrix_eq:
  "updateModelMatrix m =
     m\<lparr>m_modelMatrix := spec_worldMatrix (m_position m) (m_rotation m) (m_scale m),
       m_modelMatrixDirty := False, recomputeCount := Suc (recomputeCount m)\<rparr>"
proof -
  have "updateModelMatrix m =
     m\<lparr>m_modelMatrix := m_modelMatrix (updateModelMatrix m),
       m_modelMatrixDirty := False, recomputeCount := Suc (recomputeCount m)\<rparr>"
    by (simp add: updateModelMatrix_def Let_def)
  then show ?thesis by (simp only: updateModelMatrix_world)
qed

lemma getModelMatrix_dirty:
  "m_modelMatrixDirty m \<Longrightarrow>
   getModelMatrix m =
     (spec_worldMatrix (m_position m) (m_rotation m) (m_scale m),
      m\<lparr>m_modelMatrix := spec_worldMatrix (m_position m) (m_rotation m) (m_scale m),
        m_modelMatrixDirty := False, recomputeCount := Suc (recomputeCount m)\<rparr>)"
  by (simp add: getModelMatrix_def Let_def updateModelMatrix_eq)

lemma getModelMatrix_clean:
  "\<not> m_modelMatrixDirty m \<Longrightarrow> getModelMatrix m = (m_modelMatrix m, m)"
  by (simp add: getModelMatrix_def Let_def)

lemma getModelMatrix_twice:
  "getModelMatrix (snd (getModelMatrix m)) = (fst (getModelMatrix m), snd (getModelMatrix m))"
  by (cases "m_modelMatrixDirty m") (simp_all add: getModelMatrix_dirty getModelMatrix_clean)

lemma getModelMatrix_transform:
  "m_position (snd (getModelMatrix m)) = m_position m"
  "m_rotation (snd (getModelMatrix m)) = m_rotation m"
  "m_scale (snd (getModelMatrix m)) = m_scale m"
  by (cases "m_modelMatrixDirty m"; simp add: getModelMatrix_dirty getModelMatrix_clean)+

lemma cache_ok_read:
  "cache_ok m \<Longrightarrow>
   fst (getModelMatrix m) = spec_worldMatrix (m_position m) (m_rotation m) (m_scale m)"
  by (cases "m_modelMatrixDirty m")
     (simp_all add: cache_ok_def getModelMatrix_dirty getModelMatrix_clean)

lemma cache_ok_step: "cache_ok m \<Longrightarrow> cache_ok (Model_step m op)"
proof (cases op)
  case GetModelMatrix
  assume ok: "cache_ok m"
  show ?thesis
    using ok GetModelMatrix
    by (cases "m_modelMatrixDirty m")
       (simp_all add: cache_ok_def getModelMatrix_dirty getModelMatrix_clean)
qed (simp_all add: cache_ok_def setPosition_def setRotation_def setScale_def setScale_uniform_def)

lemma cache_ok_run: "cache_ok m \<Longrightarrow> cache_ok (Model_run m ops)"
  unfolding Model_run_def
  by (induction ops arbitrary: m) (simp_all add: cache_ok_step)

lemma cache_ok_init: "cache_ok Model_init"
  by (simp add: cache_ok_def Model_init_def)

lemma read_after_setter:
  "fst (getModelMatrix (setPosition m v)) = spec_worldMatrix v (m_rotation m) (m_scale m)"
  "fst (getModelMatrix (setRotation m v)) = spec_worldMatrix (m_position m) v (m_scale m)"
  "fst (getModelMatrix (setScale m v)) = spec_worldMatrix (m_position m) (m_rotation m) v"
  "fst (getModelMatrix (setScale_uniform m s)) =
     spec_worldMatrix (m_position m) (m_rotation m) (Vec3 s s s)"
  by (simp_all add: getModelMatrix_dirty setPosition_def setRotation_def setScale_def
      setScale_uniform_def vec3_splat_def)

text \<open>
  Claim C7.  Each of the four setters stores its argument and sets the dirty flag.
  When the flag is set, \<^verbatim>\<open>getModelMatrix\<close> recomputes: it returns and caches the
  world matrix \<open>Translate \<cdot> RotateZ \<cdot> RotateY \<cdot> RotateX \<cdot> Scale\<close> of the current position,
  rotation and scale, clears the flag, and the recompute counter goes up by one.  When
  the flag is clear it returns the cached matrix and leaves the object as it is, with no
  recompute.  A second call right after a first returns the same matrix, leaves the
  object unchanged and does not recompute.  The read that follows a setter returns the
  world matrix of the value just set and the other two components; and after any
  sequence of setter and getter calls on a new model, the matrix read is the world
  matrix of the current position, rotation and scale: it is never stale.
\<close>

theorem model_matrix_cache:
  "m_modelMatrixDirty (setPosition m v) \<and> m_position (setPosition m v) = v
   \<and> m_modelMatrixDirty (setRotation m v) \<and> m_rotation (setRotation m v) = v
   \<and> m_modelMatrixDirty (setScale m v) \<and> m_scale (setScale m v) = v
   \<and> m_modelMatrixDirty (setScale_uniform m s) \<and> m_scale (setScale_uniform m s) = Vec3 s s s
   \<and> getModelMatrix m =
       (if m_modelMatrixDirty m
        then (spec_worldMatrix (m_position m) (m_rotation m) (m_scale m),
              m\<lparr>m_modelMatrix := spec_worldMatrix (m_position m) (m_rotation m) (m_scale m),
                m_modelMatrixDirty := False, recomputeCount := Suc (recomputeCount m)\<rparr>)
        else (m_modelMatrix m, m))
   \<and> \<not> m_modelMatrixDirty (snd (getModelMatrix m))
   \<and> recomputeCount (snd (getModelMatrix m)) =
       (if m_modelMatrixDirty m then Suc (recomputeCount m) else recomputeCount m)
   \<and> fst (getModelMatrix (snd (getModelMatrix m))) = fst (getModelMatrix m)
   \<and> snd (getModelMatrix (snd (getModelMatrix m))) = snd (getModelMatrix m)
   \<and> recomputeCount (snd (getModelMatrix (snd (getModelMatrix m)))) =
       recomputeCount (snd (getModelMatrix m))
   \<and> fst (getModelMatrix (setPosition m v)) = spec_worldMatrix v (m_rotation m) (m_scale m)
   \<and> fst (getModelMatrix (setRotation m v)) = spec_worldMatrix (m_position m) v (m_scale m)
   \<and> fst (getModelMatrix (setScale m v)) = spec_worldMatrix (m_position m) (m_rotation m) v
   \<and> fst (getModelMatrix (setScale_uniform m s)) =
       spec_worldMatrix (m_position m) (m_rotation m) (Vec3 s s s)
   \<and> fst (getModelMatrix (Model_run Model_init ops)) =
       spec_worldMatrix (m_position (Model_run Model_init ops))
         (m_rotation (Model_run Model_init ops)) (m_scale (Model_run Model_init ops))"
proof -
  have setters: "m_modelMatrixDirty (setPosition m v) \<and> m_position (setPosition m v) = v
   \<and> m_modelMatrixDirty (setRotation m v) \<and> m_rotation (setRotation m v) = v
   \<and> m_modelMatrixDirty (setScale m v) \<and> m_scale (setScale m v) = v
   \<and> m_modelMatrixDirty (setScale_uniform m s) \<and> m_scale (setScale_uniform m s) = Vec3 s s s"
    by (simp add: setPosition_def setRotation_def setScale_def setScale_uniform_def vec3_splat_def)
  have getter: "getModelMatrix m =
       (if m_modelMatrixDirty m
        then (spec_worldMatrix (m_position m) (m_rotation m) (m_scale m),
              m\<lparr>m_modelMatrix := spec_worldMatrix (m_position m) (m_rotation m) (m_scale m),
                m_modelMatrixDirty := False, recomputeCount := Suc (recomputeCount m)\<rparr>)
        else (m_modelMatrix m, m))"
    by (simp add: getModelMatrix_dirty getModelMatrix_clean)
  have flag: "\<not> m_modelMatrixDirty (snd (getModelMatrix m))"
    by (cases "m_modelMatrixDirty m") (simp_all add: getModelMatrix_dirty getModelMatrix_clean)
  have count: "recomputeCount (snd (getModelMatrix m)) =
       (if m_modelMatrixDirty m then Suc (recomputeCount m) else recomputeCount m)"
    by (simp add: getModelMatrix_dirty getModelMatrix_clean)
  have twice: "fst (getModelMatrix (snd (getModelMatrix m))) = fst (getModelMatrix m)"
    "snd (getModelMatrix (snd (getModelMatrix m))) = snd (getModelMatrix m)"
    "recomputeCount (snd (getModelMatrix (snd (getModelMatrix m)))) =
       recomputeCount (snd (getModelMatrix m))"
    by (simp_all add: getModelMatrix_twice)
  have fresh: "fst (getModelMatrix (Model_run Model_init ops)) =
       spec_worldMatrix (m_position (Model_run Model_init ops))
         (m_rotation (Model_run Model_init ops)) (m_scale (Model_run Model_init ops))"
    by (rule cache_ok_read) (rule cache_ok_run, rule cache_ok_init)
  note after = read_after_setter(1)[of m v] read_after_setter(2)[of m v]
    read_after_setter(3)[of m v] read_after_setter(4)[where m = m and s = s]
  from setters getter flag count twice after fresh
  show ?thesis
    by (intro conjI) blast+
qed

lemma model_session_state:
  "recomputeCount (Model_run Model_init model_session) = 2"
  "m_position (Model_run Model_init model_session) = Vec3 1 2 3"
  "m_rotation (Model_run Model_init model_session) = Vec3 0 0 0"
  "m_scale (Model_run Model_init model_session) = Vec3 2 2 2"
  by (simp_all add: Model_run_def model_session_def Model_init_def setPosition_def
      setScale_uniform_def getModelMatrix_def Let_def updateModelMatrix_eq vec3_splat_def)

lemma spec_worldMatrix_example:
  "spec_worldMatrix (Vec3 1 2 3) (Vec3 0 0 0) (Vec3 2 2 2) =
     Mat4 (Vec4 2 0 0 0) (Vec4 0 2 0 0) (Vec4 0 0 2 0) (Vec4 1 2 3 1)"
  "spec_worldMatrix (Vec3 1 2 3) (Vec3 0 0 0) (Vec3 1 1 1) =
     Mat4 (Vec4 1 0 0 0) (Vec4 0 1 0 0) (Vec4 0 0 1 0) (Vec4 1 2 3 1)"
  by (simp_all add: spec_worldMatrix_def mat_mul_def mat_vec_def translation_matrix_def
      rotationZ_matrix_def rotationY_matrix_def rotationX_matrix_def scale_matrix_def radians_def
      v4add_def v4scale_def)

theorem model_matrix_cache_witness:
  "fst (getModelMatrix (Model_run Model_init model_session)) =
     Mat4 (Vec4 2 0 0 0) (Vec4 0 2 0 0) (Vec4 0 0 2 0) (Vec4 1 2 3 1)
   \<and> fst (getModelMatrix (setPosition Model_init (Vec3 1 2 3))) =
     Mat4 (Vec4 1 0 0 0) (Vec4 0 1 0 0) (Vec4 0 0 1 0) (Vec4 1 2 3 1)
   \<and> recomputeCount (Model_run Model_init model_session) = 2
   \<and> m_modelMatrixDirty (setPosition Model_init (Vec3 1 2 3))
   \<and> recomputeCount (snd (getModelMatrix (snd (getModelMatrix Model_init)))) = 1"
proof -
  have d: "m_modelMatrixDirty Model_init" "recomputeCount Model_init = 0"
    "m_rotation Model_init = Vec3 0 0 0" "m_scale Model_init = Vec3 1 1 1"
    by (simp_all add: Model_init_def vec3_splat_def)
  from model_matrix_cache[of Model_init "Vec3 1 2 3" 2 model_session]
  have a: "fst (getModelMatrix (Model_run Model_init model_session)) =
             spec_worldMatrix (m_position (Model_run Model_init model_session))
               (m_rotation (Model_run Model_init model_session))
               (m_scale (Model_run Model_init model_session))"
    and p: "fst (getModelMatrix (setPosition Model_init (Vec3 1 2 3))) =
             spec_worldMatrix (Vec3 1 2 3) (m_rotation Model_init) (m_scale Model_init)"
    and b: "m_modelMatrixDirty (setPosition Model_init (Vec3 1 2 3))"
    and c: "recomputeCount (snd (getModelMatrix (snd (getModelMatrix Model_init)))) =
             recomputeCount (snd (getModelMatrix Model_init))"
    and e: "recomputeCount (snd (getModelMatrix Model_init)) =
             (if m_modelMatrixDirty Model_init then Suc (recomputeCount Model_init)
              else recomputeCount Model_init)"
    by blast+
  show ?thesis
    using a p b c e d by (simp add: model_session_state spec_worldMatrix_example)
qed

section \<open>Renderer: the order of execution\<close>

lemma mset_sort_insert: "mset (sort_insert cmp x xs) = add_mset x (mset xs)"
  by (induction xs) simp_all

lemma mset_std_sort: "mset (std_sort cmp xs) = mset xs"
  unfolding std_sort_def by (induction xs) (simp_all add: mset_sort_insert)

lemma set_sort_insert: "set (sort_insert cmp x xs) = insert x (set xs)"
  by (induction xs) auto

lemma sorted_sort_insert:
  fixes k :: "'a \<Rightarrow> real"
  assumes "sorted_wrt (\<lambda>a b. k b \<le> k a) xs"
  shows "sorted_wrt (\<lambda>a b. k b \<le> k a) (sort_insert (\<lambda>a b. k a > k b) x xs)"
  using assms
proof (induction xs)
  case Nil
  then show ?case by simp
next
  case (Cons y ys)
  then show ?case
    by (auto simp: set_sort_insert)
qed

lemma sorted_std_sort:
  fixes k :: "'a \<Rightarrow> real"
  shows "sorted_wrt (\<lambda>a b. k b \<le> k a) (std_sort (\<lambda>a b. k a > k b) xs)"
  unfolding std_sort_def by (induction xs) (simp_all add: sorted_sort_insert)

lemma executed_append: "executed (xs @ ys) = executed xs @ executed ys"
  by (induction xs rule: executed.induct) simp_all

lemma executeCommand_fields:
  "m_opaqueCommands (executeCommand store r cmd) = m_opaqueCommands r"
  "m_transparentCommands (executeCommand store r cmd) = m_transparentCommands r"
  "executed (gl_trace (executeCommand store r cmd)) = executed (gl_trace r) @ [cmd]"
  by (simp_all add: executeCommand_def gl_def Let_def executed_append split: option.splits)

lemma foldl_executeCommand:
  "m_opaqueCommands (foldl (executeCommand store) r cmds) = m_opaqueCommands r
   \<and> m_transparentCommands (foldl (executeCommand store) r cmds) = m_transparentCommands r
   \<and> executed (gl_trace (foldl (executeCommand store) r cmds)) = executed (gl_trace r) @ cmds"
  by (induction cmds arbitrary: r) (simp_all add: executeCommand_fields)

lemma endFrame_executed:
  "executed (gl_trace (endFrame store r)) =
     executed (gl_trace r) @ m_opaqueCommands r
       @ std_sort (\<lambda>a b. the (distanceToCamera a) > the (distanceToCamera b)) (m_transparentCommands r)"
  "m_transparentCommands (endFrame store r) =
     std_sort (\<lambda>a b. the (distanceToCamera a) > the (distanceToCamera b)) (m_transparentCommands r)"
  "m_opaqueCommands (endFrame store r) = m_opaqueCommands r"
  by (simp_all add: endFrame_def Let_def foldl_executeCommand sortTransparentCommands_def gl_def
      executed_append)

lemma submitAll_queues:
  "m_opaqueCommands (submitAll store r subs) =
     m_opaqueCommands r @
     map (\<lambda>(p, tr). \<lparr>model = Some p, transform = tr, transparent = False, distanceToCamera = None\<rparr>)
       (filter (\<lambda>(p, tr). \<not> isTransparent (m_material (store p))) subs)
   \<and> m_transparentCommands (submitAll store r subs) =
     m_transparentCommands r @
     map (\<lambda>(p, tr). \<lparr>model = Some p, transform = tr, transparent = True,
            distanceToCamera = Some (vlength (vsub (m_cameraPosition r) (vec3_of_vec4 (col3 tr))))\<rparr>)
       (filter (\<lambda>(p, tr). isTransparent (m_material (store p))) subs)
   \<and> m_cameraPosition (submitAll store r subs) = m_cameraPosition r
   \<and> gl_trace (submitAll store r subs) = gl_trace r"
proof (induction subs arbitrary: r)
  case Nil
  then show ?case by (simp add: submitAll_def)
next
  case (Cons s subs)
  obtain p tr where s: "s = (p, tr)" by (cases s)
  have step: "submitAll store r (s # subs) = submitAll store (submit store r p tr) subs"
    by (simp add: submitAll_def s)
  show ?case
    unfolding step using Cons.IH[of "submit store r p tr"]
    by (simp add: s submit_def Let_def)
qed

lemma beginFrame_fields:
  "m_opaqueCommands (beginFrame r) = []" "m_transparentCommands (beginFrame r) = []"
  "m_cameraPosition (beginFrame r) = m_cameraPosition r" "executed (gl_trace (beginFrame r)) = []"
  by (simp_all add: beginFrame_def)

lemma sort_3_1_5:
  assumes "distanceToCamera c3 = Some 3" "distanceToCamera c1 = Some 1" "distanceToCamera c5 = Some 5"
  shows "std_sort (\<lambda>a b. the (distanceToCamera a) > the (distanceToCamera b)) [c3, c1, c5]
         = [c5, c3, c1]"
  using assms by (simp add: std_sort_def)

text \<open>
  Claim C1.  Take a frame: \<^verbatim>\<open>beginFrame\<close>, any list of submissions, \<^verbatim>\<open>endFrame\<close>.
  The opaque queue then holds one command for each submission of an opaque model, in
  submission order, and the transparent queue one command for each submission of a
  transparent model, carrying the distance from the transform's translation to the
  camera position of submission time.  The commands \<^verbatim>\<open>endFrame\<close> executes are the
  opaque queue in that order, followed by the transparent queue as \<^verbatim>\<open>endFrame\<close>
  leaves it: a permutation of the submitted transparent commands in which the stored
  distance never increases from one command to the next.  A renderer whose transparent
  queue holds \<open>c3, c1, c5\<close> with stored distances 3, 1 and 5 executes them, after its
  opaque commands, in the order \<open>c5, c3, c1\<close>.
\<close>

theorem endFrame_order:
  "(let r1 = submitAll store (beginFrame r0) subs;
        r2 = endFrame store r1
    in m_opaqueCommands r1 =
         map (\<lambda>(p, tr). \<lparr>model = Some p, transform = tr, transparent = False,
                           distanceToCamera = None\<rparr>)
           (filter (\<lambda>(p, tr). \<not> isTransparent (m_material (store p))) subs)
     \<and> m_transparentCommands r1 =
         map (\<lambda>(p, tr). \<lparr>model = Some p, transform = tr, transparent = True,
                distanceToCamera =
                  Some (vlength (vsub (m_cameraPosition r0) (vec3_of_vec4 (col3 tr))))\<rparr>)
           (filter (\<lambda>(p, tr). isTransparent (m_material (store p))) subs)
     \<and> executed (gl_trace r2) = m_opaqueCommands r1 @ m_transparentCommands r2
     \<and> mset (m_transparentCommands r2) = mset (m_transparentCommands r1)
     \<and> sorted_wrt (\<lambda>a b. the (distanceToCamera a) \<ge> the (distanceToCamera b))
          (m_transparentCommands r2))
   \<and> (distanceToCamera c3 = Some 3 \<and> distanceToCamera c1 = Some 1
        \<and> distanceToCamera c5 = Some 5 \<and> m_transparentCommands r = [c3, c1, c5] \<longrightarrow>
        executed (gl_trace (endFrame store r)) =
          executed (gl_trace r) @ m_opaqueCommands r @ [c5, c3, c1])"
proof -
  let ?r1 = "submitAll store (beginFrame r0) subs"
  let ?r2 = "endFrame store ?r1"
  have q: "m_opaqueCommands ?r1 =
         map (\<lambda>(p, tr). \<lparr>model = Some p, transform = tr, transparent = False,
                           distanceToCamera = None\<rparr>)
           (filter (\<lambda>(p, tr). \<not> isTransparent (m_material (store p))) subs)"
    "m_transparentCommands ?r1 =
         map (\<lambda>(p, tr). \<lparr>model = Some p, transform = tr, transparent = True,
                distanceToCamera =
                  Some (vlength (vsub (m_cameraPosition r0) (vec3_of_vec4 (col3 tr))))\<rparr>)
           (filter (\<lambda>(p, tr). isTransparent (m_material (store p))) subs)"
    "executed (gl_trace ?r1) = []"
    using submitAll_queues[of store "beginFrame r0" subs]
    by (simp_all add: beginFrame_fields)
  have e: "executed (gl_trace ?r2) = m_opaqueCommands ?r1 @ m_transparentCommands ?r2"
    by (simp add: endFrame_executed q(3))
  have m: "mset (m_transparentCommands ?r2) = mset (m_transparentCommands ?r1)"
    by (simp add: endFrame_executed mset_std_sort)
  have s: "sorted_wrt (\<lambda>a b. the (distanceToCamera a) \<ge> the (distanceToCamera b))
          (m_transparentCommands ?r2)"
    unfolding endFrame_executed
    by (rule sorted_std_sort[of "\<lambda>c. the (distanceToCamera c)"])
  have x: "distanceToCamera c3 = Some 3 \<and> distanceToCamera c1 = Some 1
        \<and> distanceToCamera c5 = Some 5 \<and> m_transparentCommands r = [c3, c1, c5] \<longrightarrow>
        executed (gl_trace (endFrame store r)) =
          executed (gl_trace r) @ m_opaqueCommands r @ [c5, c3, c1]"
    by (simp add: endFrame_executed sort_3_1_5)
  from q(1,2) e m s x show ?thesis
    unfolding Let_def by (intro conjI)
qed

lemma frame_queues:
  "m_opaqueCommands (submitAll glass_store (beginFrame frame_renderer) frame_submissions)
     = [\<lparr>model = Some 1, transform = glm_translate (mat4_diag 1) (Vec3 0 0 0),
         transparent = False, distanceToCamera = None\<rparr>]"
  "m_transparentCommands (submitAll glass_store (beginFrame frame_renderer) frame_submissions)
     = [\<lparr>model = Some 0, transform = glm_translate (mat4_diag 1) (Vec3 3 0 0),
         transparent = True, distanceToCamera = Some 3\<rparr>,
        \<lparr>model = Some 0, transform = glm_translate (mat4_diag 1) (Vec3 1 0 0),
         transparent = True, distanceToCamera = Some 1\<rparr>,
        \<lparr>model = Some 0, transform = glm_translate (mat4_diag 1) (Vec3 5 0 0),
         transparent = True, distanceToCamera = Some 5\<rparr>]"
  "executed (gl_trace (submitAll glass_store (beginFrame frame_renderer) frame_submissions)) = []"
  using submitAll_queues[of glass_store "beginFrame frame_renderer" frame_submissions]
  by (simp_all add: beginFrame_fields frame_submissions_def glass_store_def Model_init_def
      isTransparent_def frame_renderer_def glm_translate_def mat4_diag_def v4add_def v4scale_def
      vec3_of_vec4_def vsub_def vlength_def dot_def)

theorem endFrame_order_witness:
  "map distanceToCamera
     (executed (gl_trace (endFrame glass_store
        (submitAll glass_store (beginFrame frame_renderer) frame_submissions))))
   = [None, Some 5, Some 3, Some 1]"
proof -
  let ?r1 = "submitAll glass_store (beginFrame frame_renderer) frame_submissions"
  let ?c = "\<lambda>d. \<lparr>model = Some 0, transform = glm_translate (mat4_diag 1) (Vec3 d 0 0),
                  transparent = True, distanceToCamera = Some d\<rparr>"
  have d: "distanceToCamera (?c 3) = Some 3 \<and> distanceToCamera (?c 1) = Some 1
        \<and> distanceToCamera (?c 5) = Some 5 \<and> m_transparentCommands ?r1 = [?c 3, ?c 1, ?c 5]"
    by (simp add: frame_queues)
  from endFrame_order[of glass_store frame_renderer frame_submissions "?c 3" "?c 1" "?c 5" ?r1] d
  have "executed (gl_trace (endFrame glass_store ?r1)) =
          executed (gl_trace ?r1) @ m_opaqueCommands ?r1 @ [?c 5, ?c 3, ?c 1]"
    by blast
  then show ?thesis
    by (simp add: frame_queues)
qed


section \<open>Animation: the easing functions\<close>

text \<open>
  Claim C8.  Each of the ten easing functions maps 0 to 0 and 1 to 1.
\<close>

theorem easing_boundaries:
  "linear 0 = 0 \<and> linear 1 = 1
   \<and> easeInQuad 0 = 0 \<and> easeInQuad 1 = 1
   \<and> easeOutQuad 0 = 0 \<and> easeOutQuad 1 = 1
   \<and> easeInOutQuad 0 = 0 \<and> easeInOutQuad 1 = 1
   \<and> easeInCubic 0 = 0 \<and> easeInCubic 1 = 1
   \<and> easeOutCubic 0 = 0 \<and> easeOutCubic 1 = 1
   \<and> easeInOutCubic 0 = 0 \<and> easeInOutCubic 1 = 1
   \<and> easeInElastic 0 = 0 \<and> easeInElastic 1 = 1
   \<and> easeOutElastic 0 = 0 \<and> easeOutElastic 1 = 1
   \<and> easeOutBounce 0 = 0 \<and> easeOutBounce 1 = 1"
  by (simp add: linear_def easeInQuad_def easeOutQuad_def easeInOutQuad_def easeInCubic_def
      easeOutCubic_def easeInOutCubic_def easeInElastic_def easeOutElastic_def easeOutBounce_def)

section \<open>Animation: update\<close>

lemma update_frozen:
  "m_complete a \<or> m_paused a \<Longrightarrow> update a dt w = (m_currentValue a, a, w)"
  by (simp add: update_def)

lemma update_running:
  assumes "\<not> m_complete a" "\<not> m_paused a"
  shows "update a dt w =
     (fadd (m_startValue a)
        (fmul (fsub (m_endValue a) (m_startValue a))
           (m_easing a (if fge (fdiv (fadd (m_elapsed a) dt) (m_duration a)) (Finite 1)
                        then Finite 1 else fdiv (fadd (m_elapsed a) dt) (m_duration a)))),
      a\<lparr>m_elapsed := fadd (m_elapsed a) dt,
        m_complete := fge (fdiv (fadd (m_elapsed a) dt) (m_duration a)) (Finite 1),
        m_currentValue :=
          fadd (m_startValue a)
            (fmul (fsub (m_endValue a) (m_startValue a))
               (m_easing a (if fge (fdiv (fadd (m_elapsed a) dt) (m_duration a)) (Finite 1)
                            then Finite 1 else fdiv (fadd (m_elapsed a) dt) (m_duration a))))\<rparr>,
      if fge (fdiv (fadd (m_elapsed a) dt) (m_duration a)) (Finite 1)
      then (case m_completionCallback a of None \<Rightarrow> w | Some callback \<Rightarrow> callback w)
      else w)"
  using assms by (simp add: update_def Let_def)

lemma update_callback_field:
  "m_completionCallback (fst (snd (update a dt w))) = m_completionCallback a"
  by (cases "m_complete a \<or> m_paused a") (auto simp: update_frozen update_running)

lemma updates_complete: "m_complete a \<Longrightarrow> updates a w dts = (a, w)"
  by (induction dts) (simp_all add: update_frozen)

lemma updates_callback_once:
  "\<not> m_complete a \<Longrightarrow>
   m_completionCallback (fst (updates a w dts)) = m_completionCallback a
   \<and> snd (updates a w dts) =
     (if m_complete (fst (updates a w dts))
      then (case m_completionCallback a of None \<Rightarrow> w | Some callback \<Rightarrow> callback w)
      else w)"
proof (induction dts arbitrary: a)
  case Nil
  then show ?case by simp
next
  case (Cons dt dts)
  obtain v a' w' where u: "update a dt w = (v, a', w')" by (cases "update a dt w")
  have step: "updates a w (dt # dts) = updates a' w' dts" by (simp add: u)
  have cb: "m_completionCallback a' = m_completionCallback a"
    using update_callback_field[of a dt w] by (simp add: u)
  show ?case
  proof (cases "m_paused a")
    case True
    then have "a' = a" "w' = w" using u by (simp_all add: update_frozen)
    then show ?thesis unfolding step using Cons.IH[OF Cons.prems] by simp
  next
    case False
    note run = update_running[OF Cons.prems False, of dt w]
    show ?thesis
    proof (cases "m_complete a'")
      case True
      then have w': "w' = (case m_completionCallback a of None \<Rightarrow> w | Some callback \<Rightarrow> callback w)"
        using run u by (auto split: if_splits)
      show ?thesis unfolding step using True w' cb by (simp add: updates_complete)
    next
      case False
      then have "w' = w" using run u by (auto split: if_splits)
      with Cons.IH[OF False] cb show ?thesis unfolding step by simp
    qed
  qed
qed

lemma finite_progress:
  assumes "0 < d"
  shows "fdiv (Finite z) (Finite d) = Finite (z / d)"
    and "fge (fdiv (Finite z) (Finite d)) (Finite 1) = (z / d \<ge> 1)"
  using assms by (simp_all add: fdiv_def fge_def signed_zero_def)

lemma finite_interpolation:
  "fadd (Finite s) (fmul (fsub (Finite n) (Finite s)) (Finite r)) = Finite (s + (n - s) * r)"
  by (auto simp: fsub_def fmul_def signed_zero_def)

lemma zero_duration_progress:
  assumes "0 < z"
  shows "fdiv (Finite z) (Finite 0) = PosInf"
    and "fge (fdiv (Finite z) (Finite 0)) (Finite 1)"
  using assms by (simp_all add: fdiv_def fge_def signed_inf_def)

lemma update_ordinary:
  assumes "\<not> m_complete a" "\<not> m_paused a"
    and "m_elapsed a = Finite x" "dt = Finite y" "m_duration a = Finite d" "0 < d"
    and "m_startValue a = Finite s" "m_endValue a = Finite n"
    and "m_easing a (Finite (min ((x + y) / d) 1)) = Finite r"
  shows "update a dt w =
     (Finite (s + (n - s) * r),
      a\<lparr>m_elapsed := Finite (x + y), m_complete := ((x + y) / d \<ge> 1),
        m_currentValue := Finite (s + (n - s) * r)\<rparr>,
      if (x + y) / d \<ge> 1
      then (case m_completionCallback a of None \<Rightarrow> w | Some callback \<Rightarrow> callback w)
      else w)"
proof -
  have t: "(if fge (fdiv (fadd (m_elapsed a) dt) (m_duration a)) (Finite 1)
            then Finite 1 else fdiv (fadd (m_elapsed a) dt) (m_duration a))
           = Finite (min ((x + y) / d) 1)"
    using assms(3-6) by (simp add: finite_progress fge_def min_def)
  have v: "fadd (m_startValue a)
            (fmul (fsub (m_endValue a) (m_startValue a)) (m_easing a (Finite (min ((x + y) / d) 1))))
           = Finite (s + (n - s) * r)"
    using assms(7-9) by (simp only: finite_interpolation)
  have e: "fadd (m_elapsed a) dt = Finite (x + y)"
    using assms(3,4) by simp
  have c: "fge (fdiv (fadd (m_elapsed a) dt) (m_duration a)) (Finite 1) = ((x + y) / d \<ge> 1)"
    using assms(3-6) by (simp add: finite_progress fge_def)
  show ?thesis
    unfolding update_running[OF assms(1,2)] t v
    unfolding c
    unfolding e ..
qed

lemma update_zero_duration:
  assumes "\<not> m_complete a" "\<not> m_paused a"
    and "m_elapsed a = Finite x" "dt = Finite y" "m_duration a = Finite 0" "0 < x + y"
  shows "update a dt w =
     (fadd (m_startValue a)
        (fmul (fsub (m_endValue a) (m_startValue a)) (m_easing a (Finite 1))),
      a\<lparr>m_elapsed := Finite (x + y), m_complete := True,
        m_currentValue :=
          fadd (m_startValue a)
            (fmul (fsub (m_endValue a) (m_startValue a)) (m_easing a (Finite 1)))\<rparr>,
      case m_completionCallback a of None \<Rightarrow> w | Some callback \<Rightarrow> callback w)"
proof -
  have c: "fge (fdiv (fadd (m_elapsed a) dt) (m_duration a)) (Finite 1)"
    using assms(3-6) zero_duration_progress(2)[of "x + y"] by simp
  have e: "fadd (m_elapsed a) dt = Finite (x + y)"
    using assms(3,4) by simp
  show ?thesis
    unfolding update_running[OF assms(1,2)] using c e by simp
qed

lemma door_animation_fields:
  "m_startValue door_animation = Finite 0" "m_endValue door_animation = Finite 10"
  "m_currentValue door_animation = Finite 0" "m_duration door_animation = Finite 2"
  "m_elapsed door_animation = Finite 0" "\<not> m_complete door_animation"
  "\<not> m_paused door_animation"
  "m_easing door_animation = linear_float" "m_completionCallback door_animation = Some Suc"
  by (simp_all add: door_animation_def onComplete_def Animation_init_def)

lemma instant_animation_fields:
  "m_startValue instant_animation = Finite 0" "m_endValue instant_animation = Finite 10"
  "m_currentValue instant_animation = Finite 0" "m_duration instant_animation = Finite 0"
  "m_elapsed instant_animation = Finite 0" "\<not> m_complete instant_animation"
  "\<not> m_paused instant_animation"
  "m_easing instant_animation = linear_float" "m_completionCallback instant_animation = Some Suc"
  by (simp_all add: instant_animation_def onComplete_def Animation_init_def)

lemma door_animation_run:
  "\<not> isComplete (fst (updates door_animation 0 [Finite 1]))"
  "getValue (fst (updates door_animation 0 [Finite 1])) = Finite 5"
  "snd (updates door_animation 0 [Finite 1]) = 0"
  "isComplete (fst (updates door_animation 0 [Finite 1, Finite 1.5]))"
  "getValue (fst (updates door_animation 0 [Finite 1, Finite 1.5])) = Finite 10"
  "snd (updates door_animation 0 [Finite 1, Finite 1.5]) = 1"
  "updates door_animation 0 [Finite 1, Finite 1.5, Finite 1]
     = updates door_animation 0 [Finite 1, Finite 1.5]"
  by (simp_all add: update_def Let_def door_animation_fields linear_float_def isComplete_def
      getValue_def fdiv_def fge_def fmul_def fsub_def signed_zero_def)

lemma instant_animation_run:
  "isComplete (fst (updates instant_animation 0 [Finite 1]))"
  "getValue (fst (updates instant_animation 0 [Finite 1])) = Finite 10"
  "snd (updates instant_animation 0 [Finite 1]) = 1"
  by (simp_all add: update_def Let_def instant_animation_fields linear_float_def isComplete_def
      getValue_def fdiv_def fge_def fmul_def fsub_def signed_zero_def signed_inf_def)

text \<open>
  Claim C9.  When the animation is complete or paused, \<^verbatim>\<open>update\<close> returns the current
  value and changes nothing.  Otherwise, for every duration (zero included) and every
  float argument, it adds \<open>dt\<close> to the elapsed time, divides the elapsed time by the
  duration, replaces the quotient \<open>t\<close> by 1 when \<open>t >= 1\<close>, stores and returns
  \<open>start + (end - start) * easing t\<close>, and exactly when \<open>t >= 1\<close> held it sets the
  complete flag and calls the completion callback, if there is one.  Over any sequence
  of updates of an animation that was not complete, the callback has been called exactly
  once if the animation has become complete and not at all otherwise.  For finite values
  and a positive duration \<open>d\<close> this reads in real arithmetic: \<open>t = min (elapsed / d) 1\<close>,
  complete exactly when \<open>elapsed / d \<ge> 1\<close>.  With duration zero and positive elapsed
  time the quotient is \<open>+inf\<close>, so the animation completes at once at \<open>easing 1\<close>.  An
  animation from 0 to 10 over 2 seconds is at 5 and not complete after an update by 1,
  complete at 10 after a further update by 1.5, with its callback called once, and a
  third update changes nothing; over 0 seconds it is complete at 10 after one update.
\<close>

theorem update_spec:
  "(m_complete a \<or> m_paused a \<longrightarrow> update a dt w = (m_currentValue a, a, w))
   \<and> (\<not> m_complete a \<and> \<not> m_paused a \<longrightarrow>
        (let e = fadd (m_elapsed a) dt;
             q = fdiv e (m_duration a);
             t = (if fge q (Finite 1) then Finite 1 else q);
             v = fadd (m_startValue a) (fmul (fsub (m_endValue a) (m_startValue a)) (m_easing a t))
         in update a dt w =
              (v,
               a\<lparr>m_elapsed := e, m_complete := fge q (Finite 1), m_currentValue := v\<rparr>,
               if fge q (Finite 1)
               then (case m_completionCallback a of None \<Rightarrow> w | Some callback \<Rightarrow> callback w)
               else w)))
   \<and> (\<not> m_complete a \<longrightarrow>
        snd (updates a w dts) =
          (if m_complete (fst (updates a w dts))
           then (case m_completionCallback a of None \<Rightarrow> w | Some callback \<Rightarrow> callback w)
           else w))
   \<and> (\<not> m_complete a \<and> \<not> m_paused a
        \<and> m_elapsed a = Finite x \<and> dt = Finite y \<and> m_duration a = Finite d \<and> 0 < d
        \<and> m_startValue a = Finite s \<and> m_endValue a = Finite n
        \<and> m_easing a (Finite (min ((x + y) / d) 1)) = Finite r \<longrightarrow>
        update a dt w =
          (Finite (s + (n - s) * r),
           a\<lparr>m_elapsed := Finite (x + y), m_complete := ((x + y) / d \<ge> 1),
             m_currentValue := Finite (s + (n - s) * r)\<rparr>,
           if (x + y) / d \<ge> 1
           then (case m_completionCallback a of None \<Rightarrow> w | Some callback \<Rightarrow> callback w)
           else w))
   \<and> (\<not> m_complete a \<and> \<not> m_paused a
        \<and> m_elapsed a = Finite x \<and> dt = Finite y \<and> m_duration a = Finite 0 \<and> 0 < x + y \<longrightarrow>
        update a dt w =
          (fadd (m_startValue a)
             (fmul (fsub (m_endValue a) (m_startValue a)) (m_easing a (Finite 1))),
           a\<lparr>m_elapsed := Finite (x + y), m_complete := True,
             m_currentValue :=
               fadd (m_startValue a)
                 (fmul (fsub (m_endValue a) (m_startValue a)) (m_easing a (Finite 1)))\<rparr>,
           case m_completionCallback a of None \<Rightarrow> w | Some callback \<Rightarrow> callback w))
   \<and> \<not> isComplete (fst (updates door_animation 0 [Finite 1]))
   \<and> getValue (fst (updates door_animation 0 [Finite 1])) = Finite 5
   \<and> snd (updates door_animation 0 [Finite 1]) = 0
   \<and> isComplete (fst (updates door_animation 0 [Finite 1, Finite 1.5]))
   \<and> getValue (fst (updates door_animation 0 [Finite 1, Finite 1.5])) = Finite 10
   \<and> snd (updates door_animation 0 [Finite 1, Finite 1.5]) = 1
   \<and> updates door_animation 0 [Finite 1, Finite 1.5, Finite 1]
       = updates door_animation 0 [Finite 1, Finite 1.5]
   \<and> isComplete (fst (updates instant_animation 0 [Finite 1]))
   \<and> getValue (fst (updates instant_animation 0 [Finite 1])) = Finite 10
   \<and> snd (updates instant_animation 0 [Finite 1]) = 1"
proof -
  have fr: "m_complete a \<or> m_paused a \<longrightarrow> update a dt w = (m_currentValue a, a, w)"
    by (auto simp: update_frozen)
  have run: "\<not> m_complete a \<and> \<not> m_paused a \<longrightarrow>
        (let e = fadd (m_elapsed a) dt;
             q = fdiv e (m_duration a);
             t = (if fge q (Finite 1) then Finite 1 else q);
             v = fadd (m_startValue a) (fmul (fsub (m_endValue a) (m_startValue a)) (m_easing a t))
         in update a dt w =
              (v,
               a\<lparr>m_elapsed := e, m_complete := fge q (Finite 1), m_currentValue := v\<rparr>,
               if fge q (Finite 1)
               then (case m_completionCallback a of None \<Rightarrow> w | Some callback \<Rightarrow> callback w)
               else w))"
    unfolding Let_def using update_running[of a dt w] by simp
  have once: "\<not> m_complete a \<longrightarrow>
        snd (updates a w dts) =
          (if m_complete (fst (updates a w dts))
           then (case m_completionCallback a of None \<Rightarrow> w | Some callback \<Rightarrow> callback w)
           else w)"
    using updates_callback_once[of a w dts] by simp
  have ord: "\<not> m_complete a \<and> \<not> m_paused a
        \<and> m_elapsed a = Finite x \<and> dt = Finite y \<and> m_duration a = Finite d \<and> 0 < d
        \<and> m_startValue a = Finite s \<and> m_endValue a = Finite n
        \<and> m_easing a (Finite (min ((x + y) / d) 1)) = Finite r \<longrightarrow>
        update a dt w =
          (Finite (s + (n - s) * r),
           a\<lparr>m_elapsed := Finite (x + y), m_complete := ((x + y) / d \<ge> 1),
             m_currentValue := Finite (s + (n - s) * r)\<rparr>,
           if (x + y) / d \<ge> 1
           then (case m_completionCallback a of None \<Rightarrow> w | Some callback \<Rightarrow> callback w)
           else w)"
    using update_ordinary[of a x dt y d s n r w] by simp
  have zero: "\<not> m_complete a \<and> \<not> m_paused a
        \<and> m_elapsed a = Finite x \<and> dt = Finite y \<and> m_duration a = Finite 0 \<and> 0 < x + y \<longrightarrow>
        update a dt w =
          (fadd (m_startValue a)
             (fmul (fsub (m_endValue a) (m_startValue a)) (m_easing a (Finite 1))),
           a\<lparr>m_elapsed := Finite (x + y), m_complete := True,
             m_currentValue :=
               fadd (m_startValue a)
                 (fmul (fsub (m_endValue a) (m_startValue a)) (m_easing a (Finite 1)))\<rparr>,
           case m_completionCallback a of None \<Rightarrow> w | Some callback \<Rightarrow> callback w)"
    using update_zero_duration[of a x dt y w] by simp
  from fr run once ord zero door_animation_run instant_animation_run show ?thesis
    by (intro conjI)
qed

theorem update_spec_witness:
  "\<not> m_complete door_animation \<and> \<not> m_paused door_animation
   \<and> fst (update door_animation (Finite 1) 0) = Finite 5
   \<and> snd (snd (update door_animation (Finite 1) 0)) = 0
   \<and> m_complete (fst (updates door_animation 0 [Finite 1, Finite 1.5]))
   \<and> snd (updates door_animation 0 [Finite 1, Finite 1.5]) = Suc 0
   \<and> m_complete (fst (snd (update instant_animation (Finite 1) 0)))
   \<and> fst (update instant_animation (Finite 1) 0) = Finite 10
   \<and> snd (snd (update instant_animation (Finite 1) 0)) = Suc 0"
proof -
  have h: "\<not> m_complete door_animation \<and> \<not> m_paused door_animation
      \<and> m_elapsed door_animation = Finite 0 \<and> Finite 1 = Finite 1
      \<and> m_duration door_animation = Finite 2 \<and> (0::real) < 2
      \<and> m_startValue door_animation = Finite 0 \<and> m_endValue door_animation = Finite 10
      \<and> m_easing door_animation (Finite (min ((0 + 1) / 2) 1)) = Finite (1 / 2)"
    by (simp add: door_animation_fields linear_float_def)
  have c: "m_complete (fst (updates door_animation 0 [Finite 1, Finite 1.5]))"
    using door_animation_run(4) by (simp only: isComplete_def)
  note t = update_spec[of door_animation "Finite 1" 0 "[Finite 1, Finite 1.5]" 0 1 2 0 10 "1 / 2"]
  from t h
  have u: "update door_animation (Finite 1) 0 =
          (Finite (0 + (10 - 0) * (1 / 2)),
           door_animation\<lparr>m_elapsed := Finite (0 + 1), m_complete := ((0 + 1) / 2 \<ge> (1::real)),
             m_currentValue := Finite (0 + (10 - 0) * (1 / 2))\<rparr>,
           if (0 + 1) / 2 \<ge> (1::real)
           then (case m_completionCallback door_animation of None \<Rightarrow> 0
                 | Some callback \<Rightarrow> callback 0)
           else 0)"
    by blast
  from t h
  have s: "snd (updates door_animation 0 [Finite 1, Finite 1.5]) =
          (if m_complete (fst (updates door_animation 0 [Finite 1, Finite 1.5]))
           then (case m_completionCallback door_animation of None \<Rightarrow> 0
                 | Some callback \<Rightarrow> callback 0)
           else 0)"
    by blast
  have hz: "\<not> m_complete instant_animation \<and> \<not> m_paused instant_animation
      \<and> m_elapsed instant_animation = Finite 0 \<and> Finite 1 = Finite 1
      \<and> m_duration instant_animation = Finite 0 \<and> (0::real) < 0 + 1"
    by (simp add: instant_animation_fields)
  from update_spec[of instant_animation "Finite 1" 0 "[]" 0 1] hz
  have z: "update instant_animation (Finite 1) 0 =
          (fadd (m_startValue instant_animation)
             (fmul (fsub (m_endValue instant_animation) (m_startValue instant_animation))
                (m_easing instant_animation (Finite 1))),
           instant_animation\<lparr>m_elapsed := Finite (0 + 1), m_complete := True,
             m_currentValue :=
               fadd (m_startValue instant_animation)
                 (fmul (fsub (m_endValue instant_animation) (m_startValue instant_animation))
                    (m_easing instant_animation (Finite 1)))\<rparr>,
           case m_completionCallback instant_animation of None \<Rightarrow> 0
           | Some callback \<Rightarrow> callback 0)"
    by blast
  have "fst (update door_animation (Finite 1) 0) = Finite 5"
    "snd (snd (update door_animation (Finite 1) 0)) = 0"
    using u by simp_all
  moreover have "snd (updates door_animation 0 [Finite 1, Finite 1.5]) = Suc 0"
    using s c by (simp only: if_True door_animation_fields option.case)
  moreover have "m_complete (fst (snd (update instant_animation (Finite 1) 0)))"
    "fst (update instant_animation (Finite 1) 0) = Finite 10"
    "snd (snd (update instant_animation (Finite 1) 0)) = Suc 0"
    using z by (simp_all add: instant_animation_fields linear_float_def fsub_def fmul_def)
  ultimately show ?thesis using h c by blast
qed

section \<open>Animation: reverse and reset\<close>

text \<open>
  Claim C10.  \<^verbatim>\<open>reverse\<close> exchanges the start and end values, sets the elapsed time to
  0 and clears the complete flag; the current value, the paused flag, the duration, the
  easing function and the callback stay as they were, so \<^verbatim>\<open>getValue\<close> returns the
  same value right after \<^verbatim>\<open>reverse\<close> as before.  \<^verbatim>\<open>reset\<close> also sets the elapsed
  time to 0 and clears the complete flag, but sets the current value to the start value.
\<close>

theorem reverse_frame:
  "m_startValue (reverse a) = m_endValue a
   \<and> m_endValue (reverse a) = m_startValue a
   \<and> m_elapsed (reverse a) = Finite 0
   \<and> \<not> m_complete (reverse a)
   \<and> m_currentValue (reverse a) = m_currentValue a
   \<and> m_paused (reverse a) = m_paused a
   \<and> m_duration (reverse a) = m_duration a
   \<and> m_easing (reverse a) = m_easing a
   \<and> m_completionCallback (reverse a) = m_completionCallback a
   \<and> Animation.more (reverse a) = Animation.more a
   \<and> getValue (reverse a) = getValue a
   \<and> getValue (reset a) = m_startValue a
   \<and> m_elapsed (reset a) = Finite 0
   \<and> \<not> m_complete (reset a)
   \<and> m_startValue (reset a) = m_startValue a
   \<and> m_endValue (reset a) = m_endValue a"
  by (simp add: reverse_def reset_def getValue_def)

theorem reverse_frame_witness:
  "getValue (reverse (fst (updates door_animation 0 [Finite 1]))) = Finite 5
   \<and> getValue (reset (fst (updates door_animation 0 [Finite 1]))) = Finite 0
   \<and> m_startValue (reverse (fst (updates door_animation 0 [Finite 1]))) = Finite 10"
  using reverse_frame[of "fst (updates door_animation 0 [Finite 1])"] door_animation_run(2)
  by (simp add: update_def Let_def door_animation_fields)

end
